theory Spec2Isabelle
  imports Complex_Main "HOL-Library.Word" "HOL-Library.Log_Nat"
begin

section \<open>Vectors, point lights and the constants of the renderer\<close>

text \<open>
  The embedding follows \<open>RenderSystem.cpp\<close>. GLM's \<open>float\<close> vectors are records of
  reals: a \<open>float\<close> or \<open>double\<close> value is the real number it denotes. The
  initialisation of the lights rounds every operation and conversion as the source does
  (section on rounding below). The animation step \<open>UpdateLights\<close> is taken in exact
  arithmetic: its properties below are a frame property, which rounding does not touch,
  and an evaluation at binary fractions, on which every operation is exact.
\<close>

record vec3 =
  v3_x :: real
  v3_y :: real
  v3_z :: real

record vec4 =
  v4_x :: real
  v4_y :: real
  v4_z :: real
  v4_w :: real

text \<open>\<open>v[i]\<close> and \<open>v[i] = a\<close> on a \<open>glm::vec3\<close>, for the indices 0, 1 and 2.\<close>

definition vec3_at :: "vec3 \<Rightarrow> nat \<Rightarrow> real" where
  "vec3_at v i = (if i = 0 then v3_x v else if i = 1 then v3_y v else v3_z v)"

definition vec3_set :: "vec3 \<Rightarrow> nat \<Rightarrow> real \<Rightarrow> vec3" where
  "vec3_set v i a =
     (if i = 0 then v\<lparr>v3_x := a\<rparr> else if i = 1 then v\<lparr>v3_y := a\<rparr> else v\<lparr>v3_z := a\<rparr>)"

text \<open>\<open>glm::vec4(v, w)\<close> and \<open>glm::vec3(a)\<close>.\<close>

definition vec4_of :: "vec3 \<Rightarrow> real \<Rightarrow> vec4" where
  "vec4_of v a = \<lparr>v4_x = v3_x v, v4_y = v3_y v, v4_z = v3_z v, v4_w = a\<rparr>"

definition vec3_splat :: "real \<Rightarrow> vec3" where
  "vec3_splat a = \<lparr>v3_x = a, v3_y = a, v3_z = a\<rparr>"

record PointLight =
  Position :: vec4
  Color :: vec4
  RadiusAndPadding :: vec4

text \<open>
  \<open>MAX_NUM_LIGHTS\<close>, \<open>LIGHT_MIN_BOUNDS\<close> and \<open>LIGHT_MAX_BOUNDS\<close> are declared in
  \<open>RenderSystem.h\<close>, which is not among the sources. They are parameters of the model.
\<close>

record constants =
  MAX_NUM_LIGHTS :: nat
  LIGHT_MIN_BOUNDS :: vec3
  LIGHT_MAX_BOUNDS :: vec3

section \<open>Rounding to \<open>float\<close> and \<open>double\<close>\<close>

text \<open>
  An operation in a binary floating-point type, and a conversion to it, returns the value
  of the type nearest to the exact result, a tie going to the value with the even
  significand. \<open>ieee_round p emin\<close> is this rounding for a type with \<open>p\<close> significant bits
  and least normal exponent \<open>emin\<close>: \<open>binade\<close> finds the exponent \<open>e\<close> with
  \<open>2^e \<le> |x| < 2^(e+1)\<close> (never below \<open>emin\<close>, which gives the subnormal values their
  fixed spacing), and the magnitude is rounded to a multiple of \<open>2^(e - p + 1)\<close>. Results
  beyond the largest finite value, where the source has an infinity, are outside the model.
\<close>

definition round_even :: "real \<Rightarrow> int" where
  "round_even x =
     (let f = \<lfloor>x\<rfloor>
      in if x - of_int f < 1 / 2 then f
         else if 1 / 2 < x - of_int f then f + 1
         else if even f then f else f + 1)"

definition binade :: "nat \<Rightarrow> int \<Rightarrow> real \<Rightarrow> int" where
  "binade p emin a =
     max emin (bitlen \<lfloor>a * 2 powi (int p - 1 - emin)\<rfloor> - 1 - (int p - 1 - emin))"

definition ieee_round :: "nat \<Rightarrow> int \<Rightarrow> real \<Rightarrow> real" where
  "ieee_round p emin x =
     (let e = binade p emin \<bar>x\<bar>;
          ulp = 2 powi (e - (int p - 1))
      in sgn x * (ulp * of_int (round_even (\<bar>x\<bar> / ulp))))"

definition to_float :: "real \<Rightarrow> real" where
  "to_float = ieee_round 24 (- 126)"

definition to_double :: "real \<Rightarrow> real" where
  "to_double = ieee_round 53 (- 1022)"

section \<open>Collaborators: matrices, camera, scene, framebuffers, programs\<close>

text \<open>A \<open>glm::mat4\<close> is only passed around, never computed with: its sixteen entries.\<close>

type_synonym mat4 = "real list"

type_synonym GLuint = "32 word"

text \<open>
  The camera and the window input are read through their accessors only. A camera is the
  record of what its accessors return; \<open>GetProjMatrix\<close> takes the width and the height.
\<close>

record Camera =
  GetViewMatrix :: mat4
  GetPosition :: vec3
  GetProjMatrix :: "nat \<Rightarrow> nat \<Rightarrow> mat4"

record Input =
  ShouldResize :: bool
  GetWidth :: nat
  GetHeight :: nat

record Material =
  Albedo :: vec3
  Metallic :: real
  AO :: real
  Roughness :: real

record Mesh =
  GetVAO :: GLuint
  GetIndexCount :: nat

record Model =
  GetModelMatrix :: mat4
  GetMaterial :: Material
  GetMeshes :: "Mesh list"

record SceneBase =
  GetCamera :: Camera
  m_renderList :: "Model list"
  sun_Direction :: vec3
  sun_Color :: vec3

datatype AttachmentType = COLOR0 | DEPTH

text \<open>
  Modelled from the spec: the class \<open>GLFramebuffer\<close> is not among the sources. A
  framebuffer is an off-screen target with a name, dimensions and attached images;
  \<open>AttachTexture\<close> and \<open>AttachRenderBuffer\<close> associate an image with a slot, and
  \<open>Resize(width, height)\<close> / \<open>Reset(width, height)\<close> recreate the attachments at the
  new dimensions.
\<close>

record GLFramebuffer =
  fb_name :: string
  fb_width :: nat
  fb_height :: nat
  fb_attachments :: "(AttachmentType \<times> GLuint) list"

definition new_GLFramebuffer :: "string \<Rightarrow> nat \<Rightarrow> nat \<Rightarrow> GLFramebuffer" where
  "new_GLFramebuffer name width height =
     \<lparr>fb_name = name, fb_width = width, fb_height = height, fb_attachments = []\<rparr>"

definition Resize :: "GLFramebuffer \<Rightarrow> nat \<Rightarrow> nat \<Rightarrow> GLFramebuffer" where
  "Resize fbo width height = fbo\<lparr>fb_width := width, fb_height := height\<rparr>"

definition Reset :: "GLFramebuffer \<Rightarrow> nat \<Rightarrow> nat \<Rightarrow> GLFramebuffer" where
  "Reset fbo width height = fbo\<lparr>fb_width := width, fb_height := height\<rparr>"

definition Attach :: "GLFramebuffer \<Rightarrow> GLuint \<Rightarrow> AttachmentType \<Rightarrow> GLFramebuffer" where
  "Attach fbo handle slot = fbo\<lparr>fb_attachments := fb_attachments fbo @ [(slot, handle)]\<rparr>"

record Skybox =
  sky_path :: string
  sky_resolution :: nat
  GetIrradianceMap :: GLuint

record GLShader =
  shader_path :: string
  shader_type :: string

text \<open>
  Modelled from the spec: the class \<open>GLShaderProgram\<close> is not among the sources. A
  shader program is a named program assembled from its shader stages, immutable after
  compilation: the two arguments its constructor is given.
\<close>

record GLShaderProgram =
  program_name :: string
  program_shaders :: "GLShader list"

text \<open>
  \<open>m_shaderCache\<close> maps names to programs. It is an association list with one pair per key,
  in insertion order; the order in which the container is iterated is not fixed by C++
  and no theorem depends on it.
\<close>

type_synonym shader_cache = "(string \<times> GLShaderProgram) list"

datatype error = Abort string | out_of_range | null_pointer

text \<open>
  \<open>try_emplace(key, args...)\<close> inserts only when the key is absent; when it is present
  the container is left as it is and the value is not even constructed.
\<close>

definition try_emplace :: "shader_cache \<Rightarrow> string \<Rightarrow> GLShaderProgram \<Rightarrow> shader_cache" where
  "try_emplace cache key v =
     (case map_of cache key of Some old \<Rightarrow> cache | None \<Rightarrow> cache @ [(key, v)])"

text \<open>\<open>m_shaderCache.at(key)\<close> throws \<open>std::out_of_range\<close> when the key is absent.\<close>

definition cache_at :: "shader_cache \<Rightarrow> string \<Rightarrow> error + GLShaderProgram" where
  "cache_at cache key = (case map_of cache key of None \<Rightarrow> Inl out_of_range | Some p \<Rightarrow> Inr p)"

section \<open>The configuration node and the environment of \<open>Init\<close>\<close>

record shader_node =
  attr_path :: string
  attr_type :: string

record program_node =
  attr_name :: string
  child_Shader :: "shader_node list"

record renderer_node =
  attr_width :: "32 word"
  attr_height :: "32 word"
  child_Program :: "program_node list"

text \<open>
  What the graphics driver, the operating system and the compiler fix for \<open>Init\<close>:
  whether the loader succeeds, the object names the \<open>glGen*\<close> calls store (0 when no
  object was created), the state of the generator seeded from \<open>std::random_device\<close>,
  and the order in which the three sampling arguments of the colour constructor are
  evaluated (see \<open>init_light\<close>).
\<close>

record 'g env =
  gladLoadGLLoader :: bool
  gen_uboMatrices :: GLuint
  gen_lightBuffer :: GLuint
  gen_visibleLightIndicesBuffer :: GLuint
  gen_quadVAO :: GLuint
  gen_depthTexture :: GLuint
  gen_hdrColorBufferTexture :: GLuint
  gen_rboDepth :: GLuint
  irradianceMap :: GLuint
  arg_order :: "nat \<times> nat \<times> nat"
  rd :: 'g

section \<open>The state of a \<open>RenderSystem\<close>\<close>

text \<open>
  The members of the class, followed by the part of the OpenGL context that the class
  writes: the viewport rectangle, the two halves of the uniform buffer \<open>m_uboMatrices\<close>
  (\<open>None\<close> while never written), the contents of the light buffer and the number of
  elements of the visible-light index buffer. Pixel contents are not part of the state.
\<close>

record RenderSystem =
  m_width :: nat
  m_height :: nat
  m_workGroupsX :: nat
  m_workGroupsY :: nat
  m_depthFBO :: "GLFramebuffer option"
  m_hdrFBO :: "GLFramebuffer option"
  m_skybox :: "Skybox option"
  m_shaderCache :: shader_cache
  m_projMatrix :: mat4
  m_uboMatrices :: GLuint
  m_lightBuffer :: GLuint
  m_visibleLightIndicesBuffer :: GLuint
  m_quadVAO :: GLuint
  m_depthTexture :: GLuint
  m_hdrColorBufferTexture :: GLuint
  m_vibrance :: real
  m_coefficient :: vec3
  gl_viewport :: "nat \<times> nat \<times> nat \<times> nat"
  gl_ubo_projection :: "mat4 option"
  gl_ubo_view :: "mat4 option"
  gl_lights :: "nat \<Rightarrow> PointLight"
  gl_visibleLightIndices_size :: nat

text \<open>
  The constructor sets the four counters to 0; the cache is empty and the owning pointers
  are null by their own default constructors. The other members keep what the argument
  holds for them.
\<close>

definition RenderSystem_ctor :: "RenderSystem \<Rightarrow> RenderSystem" where
  "RenderSystem_ctor mem =
     mem\<lparr>m_width := 0, m_height := 0, m_workGroupsX := 0, m_workGroupsY := 0,
         m_depthFBO := None, m_hdrFBO := None, m_skybox := None, m_shaderCache := []\<rparr>"

section \<open>The light storage buffer\<close>

text \<open>
  \<open>glMapBuffer\<close> hands out a \<open>PointLight*\<close>; the loops index it from 0 to
  \<open>MAX_NUM_LIGHTS - 1\<close>. The mapped memory is a store from slot index to light. The
  mapping is assumed to succeed (the source does not test the pointer).
\<close>

type_synonym light_store = "nat \<Rightarrow> PointLight"

text \<open>
  \<open>std::uniform_real_distribution<> dist(0.0f, 1.0f)\<close> applied to a generator returns a
  sample and advances the generator. The pair of both is a function on generator states,
  called \<open>dis\<close> throughout (the source calls it \<open>dist\<close> in one function and
  \<open>dis\<close> in the other).
\<close>

type_synonym 'g rng = "'g \<Rightarrow> real \<times> 'g"

text \<open>
  \<open>RandomPosition\<close>: the loop over the three axes. The generator is a by-value parameter
  of \<open>RandomPosition\<close>, so the loop advances a copy and the caller's generator is
  unchanged; only the position is returned. The sample is a \<open>double\<close> converted to
  \<open>float\<close>; the subtraction, the product and the sum are \<open>float\<close> operations, each
  rounded once.
\<close>

function RandomPosition_loop :: "constants \<Rightarrow> 'g rng \<Rightarrow> nat \<Rightarrow> vec3 \<Rightarrow> 'g \<Rightarrow> vec3" where
  "RandomPosition_loop K dis i position gen =
     (if i < 3 then
        (let min = vec3_at (LIGHT_MIN_BOUNDS K) i;
             max = vec3_at (LIGHT_MAX_BOUNDS K) i;
             (u, gen') = dis gen
         in RandomPosition_loop K dis (Suc i)
              (vec3_set position i
                 (to_float (to_float (to_float u * to_float (max - min)) + min))) gen')
      else position)"
  by pat_completeness auto
termination
  by (relation "measure (\<lambda>(K, dis, i, position, gen). 3 - i)") auto

declare RandomPosition_loop.simps [simp del]

definition RandomPosition :: "constants \<Rightarrow> 'g rng \<Rightarrow> 'g \<Rightarrow> vec3" where
  "RandomPosition K dis gen = RandomPosition_loop K dis 0 (vec3_splat 0) gen"

text \<open>
  The body of the loop of \<open>setupLightStorageBuffer\<close> for one slot. The colour is built
  by one constructor call whose first three arguments each draw a sample from the
  caller's generator. C++ does not fix the order in which the arguments of a call are
  evaluated, so the order is a parameter: the triple gives, for the red, green and blue
  argument, its place (0, 1 or 2) in the evaluation; \<open>(0, 1, 2)\<close> is left to right and
  \<open>(2, 1, 0)\<close> right to left. \<open>sample_at dis gen k\<close> is the sample of the draw at place
  \<open>k\<close>, and \<open>colour_draws\<close> the generator after the three draws. Each argument is the
  \<open>double\<close> sum \<open>1.0f + sample\<close>, which the constructor converts to \<open>float\<close>.
\<close>

definition sample_at :: "'g rng \<Rightarrow> 'g \<Rightarrow> nat \<Rightarrow> real" where
  "sample_at dis gen k = fst (dis (((\<lambda>g. snd (dis g)) ^^ (min k 2)) gen))"

definition colour_draws :: "'g rng \<Rightarrow> 'g \<Rightarrow> 'g" where
  "colour_draws dis gen = snd (dis (snd (dis (snd (dis gen)))))"

definition init_light ::
  "constants \<Rightarrow> 'g rng \<Rightarrow> nat \<times> nat \<times> nat \<Rightarrow> 'g \<Rightarrow> PointLight \<Rightarrow> PointLight \<times> 'g" where
  "init_light K dis order gen light =
     (let position = RandomPosition K dis gen;
          (place_r, place_g, place_b) = order
      in (light\<lparr>Position := vec4_of position 1,
                Color := \<lparr>v4_x = to_float (to_double (1 + sample_at dis gen place_r)),
                          v4_y = to_float (to_double (1 + sample_at dis gen place_g)),
                          v4_z = to_float (to_double (1 + sample_at dis gen place_b)),
                          v4_w = 1\<rparr>,
                RadiusAndPadding := vec4_of (vec3_splat 0) 30\<rparr>,
          colour_draws dis gen))"

function setupLightStorageBuffer_loop ::
  "constants \<Rightarrow> 'g rng \<Rightarrow> nat \<times> nat \<times> nat \<Rightarrow> nat \<Rightarrow> 'g \<Rightarrow> light_store \<Rightarrow> light_store" where
  "setupLightStorageBuffer_loop K dis order i gen pointLights =
     (if i < MAX_NUM_LIGHTS K then
        (let (light, gen') = init_light K dis order gen (pointLights i)
         in setupLightStorageBuffer_loop K dis order (Suc i) gen' (pointLights(i := light)))
      else pointLights)"
  by pat_completeness auto
termination
  by (relation "measure (\<lambda>(K, dis, order, i, gen, pointLights). MAX_NUM_LIGHTS K - i)") auto

declare setupLightStorageBuffer_loop.simps [simp del]

text \<open>
  C's \<open>fmod\<close>: the remainder of the division truncated towards zero, so the result has
  the sign of the dividend. \<open>fmod a 0\<close> is NaN in C, which the reals do not have; the
  theorems that depend on the result assume a divisor that is not 0.
\<close>

definition trunc_real :: "real \<Rightarrow> int" where
  "trunc_real r = (if 0 \<le> r then \<lfloor>r\<rfloor> else \<lceil>r\<rceil>)"

definition fmod :: "real \<Rightarrow> real \<Rightarrow> real" where
  "fmod a b = a - b * of_int (trunc_real (a / b))"

text \<open>The body of the loop of \<open>UpdateLights\<close> for one light.\<close>

definition update_light :: "constants \<Rightarrow> real \<Rightarrow> PointLight \<Rightarrow> PointLight" where
  "update_light K dt light =
     (let min = vec3_at (LIGHT_MIN_BOUNDS K) 1;
          max = vec3_at (LIGHT_MAX_BOUNDS K) 1
      in light\<lparr>Position := (Position light)
           \<lparr>v4_y := fmod (v4_y (Position light) + (- 4.5 * dt) - min + max) max + min\<rparr>\<rparr>)"

function UpdateLights_loop :: "constants \<Rightarrow> real \<Rightarrow> nat \<Rightarrow> light_store \<Rightarrow> light_store" where
  "UpdateLights_loop K dt i pointLights =
     (if i < MAX_NUM_LIGHTS K then
        UpdateLights_loop K dt (Suc i) (pointLights(i := update_light K dt (pointLights i)))
      else pointLights)"
  by pat_completeness auto
termination
  by (relation "measure (\<lambda>(K, dt, i, pointLights). MAX_NUM_LIGHTS K - i)") auto

declare UpdateLights_loop.simps [simp del]

definition UpdateLights :: "constants \<Rightarrow> real \<Rightarrow> RenderSystem \<Rightarrow> RenderSystem" where
  "UpdateLights K dt this = this\<lparr>gl_lights := UpdateLights_loop K dt 0 (gl_lights this)\<rparr>"

text \<open>
  \<open>setupLightStorageBuffer\<close> aborts when \<open>m_lightBuffer\<close> is 0, after writing its message
  to \<open>std::cerr\<close>; the message is the argument of \<open>Abort\<close>.
\<close>

definition setupLightStorageBuffer ::
  "constants \<Rightarrow> 'g rng \<Rightarrow> 'g env \<Rightarrow> RenderSystem \<Rightarrow> error + RenderSystem" where
  "setupLightStorageBuffer K dis e this =
     (if m_lightBuffer this = 0 then
        Inl (Abort (''Error: Forward+ light buffer has not been created.'' @ [CHR 0x0A]))
      else Inr (this\<lparr>gl_lights :=
                  setupLightStorageBuffer_loop K dis (arg_order e) 0 (rd e) (gl_lights this)\<rparr>))"

definition setupLightBuffers ::
  "constants \<Rightarrow> 'g rng \<Rightarrow> 'g env \<Rightarrow> RenderSystem \<Rightarrow> error + RenderSystem" where
  "setupLightBuffers K dis e this =
     (let numberOfTiles = m_workGroupsX this * m_workGroupsY this
      in setupLightStorageBuffer K dis e
           (this\<lparr>m_lightBuffer := gen_lightBuffer e,
                 m_visibleLightIndicesBuffer := gen_visibleLightIndicesBuffer e,
                 gl_visibleLightIndices_size := numberOfTiles * MAX_NUM_LIGHTS K\<rparr>))"

section \<open>\<open>Init\<close>\<close>

definition setupScreenquad :: "'g env \<Rightarrow> RenderSystem \<Rightarrow> RenderSystem" where
  "setupScreenquad e this = this\<lparr>m_quadVAO := gen_quadVAO e\<rparr>"

text \<open>A member call through a null \<open>std::unique_ptr\<close> is the error \<open>null_pointer\<close>.\<close>

definition setupDepthBuffer :: "'g env \<Rightarrow> RenderSystem \<Rightarrow> error + RenderSystem" where
  "setupDepthBuffer e this =
     (case m_depthFBO this of
        None \<Rightarrow> Inl null_pointer
      | Some fbo \<Rightarrow>
          Inr (this\<lparr>m_depthTexture := gen_depthTexture e,
                    m_depthFBO := Some (Attach fbo (gen_depthTexture e) DEPTH)\<rparr>))"

definition setupHDRBuffer :: "'g env \<Rightarrow> RenderSystem \<Rightarrow> error + RenderSystem" where
  "setupHDRBuffer e this =
     (case m_hdrFBO this of
        None \<Rightarrow> Inl null_pointer
      | Some fbo \<Rightarrow>
          Inr (this\<lparr>m_hdrColorBufferTexture := gen_hdrColorBufferTexture e,
                    m_hdrFBO := Some (Attach (Attach (Reset fbo (m_width this) (m_height this))
                                  (gen_hdrColorBufferTexture e) COLOR0) (gen_rboDepth e) DEPTH)\<rparr>))"

text \<open>
  The loop over the \<open>Program\<close> children of the node: the inner loop collects the shaders
  of one program, then the program is entered into the cache under its name. \<open>Compile\<close>
  is that last step, the \<open>try_emplace\<close> call with the name as key and the name and the
  shaders as constructor arguments.
\<close>

definition collect_shaders :: "shader_node list \<Rightarrow> GLShader list" where
  "collect_shaders nodes =
     map (\<lambda>shader. \<lparr>shader_path = attr_path shader, shader_type = attr_type shader\<rparr>) nodes"

definition Compile :: "shader_cache \<Rightarrow> string \<Rightarrow> GLShader list \<Rightarrow> shader_cache" where
  "Compile cache name shaders =
     try_emplace cache name \<lparr>program_name = name, program_shaders = shaders\<rparr>"

fun compile_programs :: "program_node list \<Rightarrow> shader_cache \<Rightarrow> shader_cache" where
  "compile_programs [] cache = cache"
| "compile_programs (program # rest) cache =
     compile_programs rest
       (Compile cache (attr_name program) (collect_shaders (child_Shader program)))"

text \<open>
  \<open>width\<close> and \<open>height\<close> are \<open>unsigned int\<close> (the result of \<open>as_uint()\<close>); the tile counts
  are computed in that type. The calls that switch fixed-function state (face culling,
  depth test, blending) write nothing that the state records.
\<close>

definition Init ::
  "constants \<Rightarrow> 'g rng \<Rightarrow> 'g env \<Rightarrow> renderer_node \<Rightarrow> RenderSystem \<Rightarrow> error + RenderSystem" where
  "Init K dis e rendererNode this =
     (if \<not> gladLoadGLLoader e then Inl (Abort ''Failed to start GLAD.'')
      else
        (let width = attr_width rendererNode;
             height = attr_height rendererNode;
             s1 = this\<lparr>m_width := unat width, m_height := unat height,
                       m_workGroupsX := unat ((width + width mod 8) div 8),
                       m_workGroupsY := unat ((height + height mod 8) div 8)\<rparr>;
             s2 = s1\<lparr>m_depthFBO := Some (new_GLFramebuffer ''Depth FBO'' (unat width) (unat height)),
                     m_hdrFBO := Some (new_GLFramebuffer ''HDR FBO'' (unat width) (unat height)),
                     m_skybox := Some \<lparr>sky_path = ''Data/hdri/barcelona.hdr'',
                                       sky_resolution = 1024,
                                       GetIrradianceMap = irradianceMap e\<rparr>\<rparr>;
             s3 = s2\<lparr>m_shaderCache :=
                       compile_programs (child_Program rendererNode) (m_shaderCache s2)\<rparr>;
             s4 = s3\<lparr>m_uboMatrices := gen_uboMatrices e,
                     gl_ubo_projection := None, gl_ubo_view := None\<rparr>
         in case setupLightBuffers K dis e s4 of
              Inl err \<Rightarrow> Inl err
            | Inr s5 \<Rightarrow>
               (case setupDepthBuffer e (setupScreenquad e s5) of
                  Inl err \<Rightarrow> Inl err
                | Inr s6 \<Rightarrow>
                   (case setupHDRBuffer e s6 of
                      Inl err \<Rightarrow> Inl err
                    | Inr s7 \<Rightarrow> Inr (s7\<lparr>gl_viewport := (0, 0, unat width, unat height)\<rparr>)))))"

section \<open>\<open>InitView\<close> and \<open>Update\<close>\<close>

definition InitView :: "Camera \<Rightarrow> RenderSystem \<Rightarrow> RenderSystem" where
  "InitView camera this =
     (let s = this\<lparr>m_projMatrix := GetProjMatrix camera (m_width this) (m_height this)\<rparr>
      in s\<lparr>gl_ubo_projection := Some (m_projMatrix s)\<rparr>)"

text \<open>
  The branch of \<open>Update\<close> taken when the window size changed. The closing \<open>glClear\<close>
  of \<open>Update\<close> touches pixel contents only and has no counterpart in the state.
\<close>

definition resize_view :: "Input \<Rightarrow> Camera \<Rightarrow> RenderSystem \<Rightarrow> error + RenderSystem" where
  "resize_view input camera this =
     (let s1 = this\<lparr>m_width := GetWidth input, m_height := GetHeight input\<rparr>;
          s2 = s1\<lparr>m_projMatrix := GetProjMatrix camera (m_width s1) (m_height s1)\<rparr>;
          s3 = InitView camera s2;
          s4 = s3\<lparr>gl_viewport := (0, 0, m_width s3, m_height s3)\<rparr>
      in case m_depthFBO s4 of
           None \<Rightarrow> Inl null_pointer
         | Some fbo \<Rightarrow> Inr (s4\<lparr>m_depthFBO := Some (Resize fbo (m_width s4) (m_height s4))\<rparr>))"

definition Update ::
  "constants \<Rightarrow> Input \<Rightarrow> Camera \<Rightarrow> real \<Rightarrow> RenderSystem \<Rightarrow> error + RenderSystem" where
  "Update K input camera delta this =
     (case (if ShouldResize input then resize_view input camera this else Inr this) of
        Inl err \<Rightarrow> Inl err
      | Inr s \<Rightarrow>
          Inr (UpdateLights K delta (s\<lparr>gl_ubo_view := Some (GetViewMatrix camera)\<rparr>)))"

section \<open>\<open>Render\<close> and \<open>Shutdown\<close>: the calls they issue\<close>

text \<open>
  \<open>Render\<close> changes no member; what it does is the sequence of calls it makes on the
  OpenGL context and on its collaborators. A reference to a cached program is the key of
  its entry, so a call on a program carries that key.
\<close>

datatype buffer_target = GL_UNIFORM_BUFFER | GL_SHADER_STORAGE_BUFFER

datatype texture_target = GL_TEXTURE_2D | GL_TEXTURE_CUBE_MAP

datatype clear_bit = GL_COLOR_BUFFER_BIT | GL_DEPTH_BUFFER_BIT

datatype uniform_value = UMat mat4 | UVec3 vec3 | UFloat real | UInt int

datatype gl_call =
    glBindBuffer buffer_target GLuint
  | ProgramBind string
  | SetUniform string string uniform_value
  | DeleteProgram string
  | FramebufferBind string
  | FramebufferUnbind string
  | glBindFramebuffer GLuint
  | glClear "clear_bit list"
  | glActiveTexture nat
  | glBindTexture texture_target GLuint
  | glBindBufferBase buffer_target nat GLuint
  | glDispatchCompute nat nat nat
  | VertexArrayBind GLuint
  | glDrawElements nat
  | glDrawArrays nat nat
  | SkyboxDraw

text \<open>\<open>renderModels\<close>: the inner loop over the meshes of one model, then the outer loop.\<close>

fun renderMeshes :: "string \<Rightarrow> Model \<Rightarrow> bool \<Rightarrow> Mesh list \<Rightarrow> gl_call list" where
  "renderMeshes shader model depthPass [] = []"
| "renderMeshes shader model depthPass (mesh # meshes) =
     (if \<not> depthPass then
        [SetUniform shader ''albedo'' (UVec3 (Albedo (GetMaterial model))),
         SetUniform shader ''metallic'' (UFloat (Metallic (GetMaterial model))),
         SetUniform shader ''ao'' (UFloat (AO (GetMaterial model))),
         SetUniform shader ''roughness'' (UFloat (Roughness (GetMaterial model)))]
      else [])
     @ [VertexArrayBind (GetVAO mesh), glDrawElements (GetIndexCount mesh),
        glBindTexture GL_TEXTURE_2D 0]
     @ renderMeshes shader model depthPass meshes"

definition renderModel :: "string \<Rightarrow> bool \<Rightarrow> Model \<Rightarrow> gl_call list" where
  "renderModel shader depthPass model =
     SetUniform shader ''modelMatrix'' (UMat (GetModelMatrix model))
     # renderMeshes shader model depthPass (GetMeshes model)"

fun renderModels :: "string \<Rightarrow> Model list \<Rightarrow> bool \<Rightarrow> gl_call list" where
  "renderModels shader [] depthPass = []"
| "renderModels shader (model # renderList) depthPass =
     renderModel shader depthPass model @ renderModels shader renderList depthPass"

definition renderQuad :: "RenderSystem \<Rightarrow> gl_call list" where
  "renderQuad this = [VertexArrayBind (m_quadVAO this), glDrawArrays 0 4]"

text \<open>
  The four function-local statics of \<open>Render\<close> are references into the cache, bound by
  \<open>m_shaderCache.at\<close> on the first call that reaches them. Each is a flag: once set, the
  reference denotes the entry under its key and no lookup happens again. When \<open>at\<close> throws,
  the statics bound before it stay bound and the others stay unbound.
\<close>

record Render_statics =
  static_depthShader :: bool
  static_lightCullShader :: bool
  static_pbrShader :: bool
  static_postProcessShader :: bool

definition static_ref :: "shader_cache \<Rightarrow> string \<Rightarrow> bool \<Rightarrow> error + string" where
  "static_ref cache key bound =
     (if bound then Inr key
      else (case cache_at cache key of Inl err \<Rightarrow> Inl err | Inr p \<Rightarrow> Inr key))"

definition depth_pass :: "string \<Rightarrow> GLFramebuffer \<Rightarrow> Model list \<Rightarrow> gl_call list" where
  "depth_pass depthShader fbo renderList =
     [FramebufferBind (fb_name fbo), glClear [GL_DEPTH_BUFFER_BIT]]
     @ renderModels depthShader renderList True
     @ [FramebufferUnbind (fb_name fbo)]"

definition culling_pass :: "RenderSystem \<Rightarrow> string \<Rightarrow> mat4 \<Rightarrow> gl_call list" where
  "culling_pass this lightCullShader viewMatrix =
     [ProgramBind lightCullShader,
      SetUniform lightCullShader ''projection'' (UMat (m_projMatrix this)),
      SetUniform lightCullShader ''view'' (UMat viewMatrix),
      glActiveTexture 5,
      SetUniform lightCullShader ''depthMap'' (UInt 5),
      glBindTexture GL_TEXTURE_2D (m_depthTexture this),
      glBindBufferBase GL_SHADER_STORAGE_BUFFER 0 (m_lightBuffer this),
      glBindBufferBase GL_SHADER_STORAGE_BUFFER 1 (m_visibleLightIndicesBuffer this),
      glDispatchCompute (m_workGroupsX this) (m_workGroupsY this) 1]"

definition shading_pass :: "string \<Rightarrow> Skybox \<Rightarrow> SceneBase \<Rightarrow> gl_call list" where
  "shading_pass pbrShader skybox scene =
     [glBindTexture GL_TEXTURE_CUBE_MAP (GetIrradianceMap skybox),
      ProgramBind pbrShader,
      SetUniform pbrShader ''irradianceMap'' (UInt 0),
      SetUniform pbrShader ''wireframe'' (UInt 1),
      SetUniform pbrShader ''viewPos'' (UVec3 (GetPosition (GetCamera scene))),
      SetUniform pbrShader ''sunDirection'' (UVec3 (sun_Direction scene)),
      SetUniform pbrShader ''sunColor'' (UVec3 (sun_Color scene))]
     @ renderModels pbrShader (m_renderList scene) False
     @ [SkyboxDraw]"

definition post_process_pass :: "RenderSystem \<Rightarrow> string \<Rightarrow> gl_call list" where
  "post_process_pass this postProcessShader =
     [glBindFramebuffer 0,
      ProgramBind postProcessShader,
      SetUniform postProcessShader ''vibranceAmount'' (UFloat (m_vibrance this)),
      SetUniform postProcessShader ''vibranceCoefficient'' (UVec3 (m_coefficient this)),
      glActiveTexture 0,
      glBindTexture GL_TEXTURE_2D (m_hdrColorBufferTexture this)]
     @ renderQuad this"

text \<open>
  The body of \<open>Render\<close> after the statics are bound. The result is the error that ended
  the call, if any, and the calls issued up to there.
\<close>

definition render_passes ::
  "RenderSystem \<Rightarrow> SceneBase \<Rightarrow> string \<Rightarrow> string \<Rightarrow> string \<Rightarrow> string
     \<Rightarrow> error option \<times> gl_call list" where
  "render_passes this scene depthShader lightCullShader pbrShader postProcessShader =
     (let viewMatrix = GetViewMatrix (GetCamera scene);
          t1 = [ProgramBind depthShader]
      in case m_depthFBO this of
           None \<Rightarrow> (Some null_pointer, t1)
         | Some depthFBO \<Rightarrow>
            (let t2 = t1 @ depth_pass depthShader depthFBO (m_renderList scene)
                         @ culling_pass this lightCullShader viewMatrix
             in case m_hdrFBO this of
                  None \<Rightarrow> (Some null_pointer, t2)
                | Some hdrFBO \<Rightarrow>
                   (let t3 = t2 @ [FramebufferBind (fb_name hdrFBO),
                                   glClear [GL_COLOR_BUFFER_BIT, GL_DEPTH_BUFFER_BIT],
                                   glActiveTexture 0]
                    in case m_skybox this of
                         None \<Rightarrow> (Some null_pointer, t3)
                       | Some skybox \<Rightarrow>
                           (None, t3 @ shading_pass pbrShader skybox scene
                                     @ post_process_pass this postProcessShader))))"

definition Render ::
  "RenderSystem \<Rightarrow> Render_statics \<Rightarrow> SceneBase
     \<Rightarrow> error option \<times> gl_call list \<times> Render_statics" where
  "Render this st scene =
     (let cache = m_shaderCache this;
          t0 = [glBindBuffer GL_UNIFORM_BUFFER (m_uboMatrices this)]
      in case static_ref cache ''DepthPassShader'' (static_depthShader st) of
           Inl err \<Rightarrow> (Some err, t0, st)
         | Inr depthShader \<Rightarrow>
      (let st1 = st\<lparr>static_depthShader := True\<rparr>
       in case static_ref cache ''LightCullShader'' (static_lightCullShader st1) of
            Inl err \<Rightarrow> (Some err, t0, st1)
          | Inr lightCullShader \<Rightarrow>
      (let st2 = st1\<lparr>static_lightCullShader := True\<rparr>
       in case static_ref cache ''PBRShader'' (static_pbrShader st2) of
            Inl err \<Rightarrow> (Some err, t0, st2)
          | Inr pbrShader \<Rightarrow>
      (let st3 = st2\<lparr>static_pbrShader := True\<rparr>
       in case static_ref cache ''PostProcessShader'' (static_postProcessShader st3) of
            Inl err \<Rightarrow> (Some err, t0, st3)
          | Inr postProcessShader \<Rightarrow>
      (let st4 = st3\<lparr>static_postProcessShader := True\<rparr>;
           (res, t) = render_passes this scene depthShader lightCullShader pbrShader
                        postProcessShader
       in (res, t0 @ t, st4))))))"

text \<open>
  \<open>Shutdown\<close> is a \<open>const\<close> member: it calls \<open>DeleteProgram\<close> on every cached program and
  leaves the object, and with it the cache, as it was.
\<close>

definition Shutdown :: "RenderSystem \<Rightarrow> gl_call list \<times> RenderSystem" where
  "Shutdown this = (map (\<lambda>shader. DeleteProgram (fst shader)) (m_shaderCache this), this)"

section \<open>Observations used to state the properties\<close>

text \<open>The rounded magnitude: \<open>ieee_round\<close> without the sign.\<close>

definition round_abs :: "nat \<Rightarrow> int \<Rightarrow> real \<Rightarrow> real" where
  "round_abs p emin a =
     2 powi (binade p emin a - (int p - 1))
       * of_int (round_even (a / 2 powi (binade p emin a - (int p - 1))))"

text \<open>A finite \<open>float\<close> value: a number that the conversion to \<open>float\<close> leaves as it is.\<close>

definition is_float :: "real \<Rightarrow> bool" where
  "is_float x \<longleftrightarrow> to_float x = x \<and> \<bar>x\<bar> < 2 ^ 128"

text \<open>The specification's tile count for a dimension: \<open>ceil(dim / 8)\<close>.\<close>

definition ceil_div8 :: "nat \<Rightarrow> nat" where
  "ceil_div8 n = nat \<lceil>real n / 8\<rceil>"

text \<open>
  The specification's wrap of a vertical coordinate: modulo the span \<open>hi - lo\<close>, back
  into the range that starts at \<open>lo\<close>.
\<close>

definition wrap_span :: "real \<Rightarrow> real \<Rightarrow> real \<Rightarrow> real" where
  "wrap_span lo hi v = v - (hi - lo) * of_int \<lfloor>(v - lo) / (hi - lo)\<rfloor>"

text \<open>
  What a sequence of calls submits to the GPU: every draw and every compute dispatch, in
  the order of submission, each with the program that is bound when it is issued.
\<close>

datatype submission =
    Draw "string option" nat
  | Dispatch "string option" nat nat nat
  | DrawQuad "string option" nat nat
  | DrawSkybox

fun submissions :: "string option \<Rightarrow> gl_call list \<Rightarrow> submission list" where
  "submissions cur [] = []"
| "submissions cur (ProgramBind p # cs) = submissions (Some p) cs"
| "submissions cur (glDrawElements n # cs) = Draw cur n # submissions cur cs"
| "submissions cur (glDispatchCompute gx gy gz # cs) = Dispatch cur gx gy gz # submissions cur cs"
| "submissions cur (glDrawArrays first n # cs) = DrawQuad cur first n # submissions cur cs"
| "submissions cur (SkyboxDraw # cs) = DrawSkybox # submissions cur cs"
| "submissions cur (c # cs) = submissions cur cs"

text \<open>The program that is bound after a sequence of calls.\<close>

fun bound_after :: "string option \<Rightarrow> gl_call list \<Rightarrow> string option" where
  "bound_after cur [] = cur"
| "bound_after cur (ProgramBind p # cs) = bound_after (Some p) cs"
| "bound_after cur (c # cs) = bound_after cur cs"

text \<open>The index counts of all meshes of a render list, in drawing order.\<close>

definition index_counts :: "Model list \<Rightarrow> nat list" where
  "index_counts renderList = concat (map (\<lambda>model. map GetIndexCount (GetMeshes model)) renderList)"

text \<open>The names of the uniforms that a sequence of calls sets on one program, in order.\<close>

fun uniforms_set :: "string \<Rightarrow> gl_call list \<Rightarrow> string list" where
  "uniforms_set shader [] = []"
| "uniforms_set shader (SetUniform p name v # cs) =
     (if p = shader then name # uniforms_set shader cs else uniforms_set shader cs)"
| "uniforms_set shader (c # cs) = uniforms_set shader cs"

text \<open>
  What a sequence of calls does with one program, in order: the uniforms it sets on the
  program, and the indexed draws it issues while the program is the bound one.
\<close>

datatype pass_event = Uniform string | Drawn nat

fun pass_events :: "string \<Rightarrow> string option \<Rightarrow> gl_call list \<Rightarrow> pass_event list" where
  "pass_events shader cur [] = []"
| "pass_events shader cur (ProgramBind p # cs) = pass_events shader (Some p) cs"
| "pass_events shader cur (SetUniform p name v # cs) =
     (if p = shader then Uniform name # pass_events shader cur cs
      else pass_events shader cur cs)"
| "pass_events shader cur (glDrawElements n # cs) =
     (if cur = Some shader then Drawn n # pass_events shader cur cs
      else pass_events shader cur cs)"
| "pass_events shader cur (c # cs) = pass_events shader cur cs"

definition material_uniforms :: "string list" where
  "material_uniforms = [''albedo'', ''metallic'', ''ao'', ''roughness'']"

text \<open>
  The state in which \<open>Render\<close> can run through: the owning pointers are set, and each of
  the four programs is either bound to its static already or present in the cache.
\<close>

definition render_ready :: "RenderSystem \<Rightarrow> Render_statics \<Rightarrow> bool" where
  "render_ready this st \<longleftrightarrow>
     m_depthFBO this \<noteq> None \<and> m_hdrFBO this \<noteq> None \<and> m_skybox this \<noteq> None \<and>
     (static_depthShader st \<or> map_of (m_shaderCache this) ''DepthPassShader'' \<noteq> None) \<and>
     (static_lightCullShader st \<or> map_of (m_shaderCache this) ''LightCullShader'' \<noteq> None) \<and>
     (static_pbrShader st \<or> map_of (m_shaderCache this) ''PBRShader'' \<noteq> None) \<and>
     (static_postProcessShader st \<or> map_of (m_shaderCache this) ''PostProcessShader'' \<noteq> None)"

text \<open>
  The calls of a \<open>Render\<close> that runs through, with the four programs under their keys:
  the four passes one after the other.
\<close>

definition frame ::
  "RenderSystem \<Rightarrow> SceneBase \<Rightarrow> GLFramebuffer \<Rightarrow> GLFramebuffer \<Rightarrow> Skybox \<Rightarrow> gl_call list" where
  "frame this scene depthFBO hdrFBO skybox =
     [glBindBuffer GL_UNIFORM_BUFFER (m_uboMatrices this), ProgramBind ''DepthPassShader'']
     @ depth_pass ''DepthPassShader'' depthFBO (m_renderList scene)
     @ culling_pass this ''LightCullShader'' (GetViewMatrix (GetCamera scene))
     @ [FramebufferBind (fb_name hdrFBO), glClear [GL_COLOR_BUFFER_BIT, GL_DEPTH_BUFFER_BIT],
        glActiveTexture 0]
     @ shading_pass ''PBRShader'' skybox scene
     @ post_process_pass this ''PostProcessShader''"

section \<open>Example values\<close>

text \<open>
  Concrete inputs on which the model is evaluated. The header with the constants is not
  among the sources: \<open>example_constants\<close> is one possible header, with the capacity 1024
  that the specification names.
\<close>

definition example_constants :: constants where
  "example_constants =
     \<lparr>MAX_NUM_LIGHTS = 1024,
      LIGHT_MIN_BOUNDS = \<lparr>v3_x = - 135, v3_y = - 20, v3_z = - 60\<rparr>,
      LIGHT_MAX_BOUNDS = \<lparr>v3_x = 135, v3_y = 170, v3_z = 60\<rparr>\<rparr>"

definition example_dis :: "nat rng" where
  "example_dis n = (1 / real (n + 2), Suc n)"

definition example_dis_high :: "nat rng" where
  "example_dis_high n = (1 - 1 / 2 ^ 25, Suc n)"

definition example_light :: PointLight where
  "example_light =
     \<lparr>Position = \<lparr>v4_x = 0, v4_y = - 20, v4_z = 0, v4_w = 1\<rparr>,
      Color = \<lparr>v4_x = 1, v4_y = 1, v4_z = 1, v4_w = 1\<rparr>,
      RadiusAndPadding = \<lparr>v4_x = 0, v4_y = 0, v4_z = 0, v4_w = 30\<rparr>\<rparr>"

definition example_memory :: RenderSystem where
  "example_memory =
     \<lparr>m_width = 0, m_height = 0, m_workGroupsX = 0, m_workGroupsY = 0,
      m_depthFBO = None, m_hdrFBO = None, m_skybox = None, m_shaderCache = [],
      m_projMatrix = [], m_uboMatrices = 0, m_lightBuffer = 0,
      m_visibleLightIndicesBuffer = 0, m_quadVAO = 0, m_depthTexture = 0,
      m_hdrColorBufferTexture = 0, m_vibrance = 0, m_coefficient = vec3_splat 0,
      gl_viewport = (0, 0, 0, 0), gl_ubo_projection = None, gl_ubo_view = None,
      gl_lights = (\<lambda>i. example_light), gl_visibleLightIndices_size = 0\<rparr>"

definition example_env :: "nat env" where
  "example_env =
     \<lparr>gladLoadGLLoader = True, gen_uboMatrices = 1, gen_lightBuffer = 2,
      gen_visibleLightIndicesBuffer = 3, gen_quadVAO = 4, gen_depthTexture = 5,
      gen_hdrColorBufferTexture = 6, gen_rboDepth = 7, irradianceMap = 8,
      arg_order = (2, 1, 0), rd = 0\<rparr>"

definition example_program :: "string \<Rightarrow> string \<Rightarrow> program_node" where
  "example_program name path =
     \<lparr>attr_name = name, child_Shader = [\<lparr>attr_path = path, attr_type = ''stage''\<rparr>]\<rparr>"

definition example_node :: "32 word \<Rightarrow> 32 word \<Rightarrow> renderer_node" where
  "example_node width height =
     \<lparr>attr_width = width, attr_height = height,
      child_Program =
        [example_program ''DepthPassShader'' ''depth.glsl'',
         example_program ''LightCullShader'' ''cull.glsl'',
         example_program ''PBRShader'' ''pbr.glsl'',
         example_program ''PostProcessShader'' ''post.glsl'']\<rparr>"

definition example_camera :: Camera where
  "example_camera =
     \<lparr>GetViewMatrix = [], GetPosition = vec3_splat 0,
      GetProjMatrix = (\<lambda>width height. [real width, real height])\<rparr>"

definition example_ready :: RenderSystem where
  "example_ready =
     example_memory
       \<lparr>m_width := 800, m_height := 600, m_workGroupsX := 100, m_workGroupsY := 75,
        m_depthFBO := Some (new_GLFramebuffer ''Depth FBO'' 800 600),
        m_hdrFBO := Some (new_GLFramebuffer ''HDR FBO'' 800 600),
        m_skybox := Some \<lparr>sky_path = ''Data/hdri/barcelona.hdr'', sky_resolution = 1024,
                          GetIrradianceMap = 8\<rparr>,
        m_shaderCache := compile_programs (child_Program (example_node 800 600)) []\<rparr>"

definition example_statics :: Render_statics where
  "example_statics =
     \<lparr>static_depthShader = False, static_lightCullShader = False,
      static_pbrShader = False, static_postProcessShader = False\<rparr>"

definition example_model :: "Mesh list \<Rightarrow> Model" where
  "example_model meshes =
     \<lparr>GetModelMatrix = [],
      GetMaterial = \<lparr>Albedo = vec3_splat 1, Metallic = 0, AO = 1, Roughness = 1\<rparr>,
      GetMeshes = meshes\<rparr>"

definition example_mesh :: "GLuint \<Rightarrow> nat \<Rightarrow> Mesh" where
  "example_mesh vao n = \<lparr>GetVAO = vao, GetIndexCount = n\<rparr>"

definition example_scene :: "Model list \<Rightarrow> SceneBase" where
  "example_scene renderList =
     \<lparr>GetCamera = example_camera, m_renderList = renderList,
      sun_Direction = vec3_splat 0, sun_Color = vec3_splat 1\<rparr>"

section \<open>Properties of the light storage buffer\<close>

lemma UpdateLights_loop_at:
  "UpdateLights_loop K dt i pointLights j =
     (if i \<le> j \<and> j < MAX_NUM_LIGHTS K then update_light K dt (pointLights j) else pointLights j)"
proof (induction K dt i pointLights rule: UpdateLights_loop.induct)
  case (1 K dt i pointLights)
  show ?case
  proof (cases "i < MAX_NUM_LIGHTS K")
    case True
    have "UpdateLights_loop K dt i pointLights j =
          UpdateLights_loop K dt (Suc i) (pointLights(i := update_light K dt (pointLights i))) j"
      using True by (subst UpdateLights_loop.simps) simp
    also note "1.IH" [OF True]
    finally show ?thesis using True by auto
  next
    case False
    then show ?thesis by (subst UpdateLights_loop.simps) simp
  qed
qed

lemma gl_lights_UpdateLights:
  "gl_lights (UpdateLights K dt this) i =
     (if i < MAX_NUM_LIGHTS K then update_light K dt (gl_lights this i) else gl_lights this i)"
  by (simp add: UpdateLights_def UpdateLights_loop_at)

text \<open>
  Claim C10. A call of \<open>UpdateLights\<close> changes nothing of a light but the y coordinate
  of its position: for every slot \<open>i\<close> of the buffer, the x, z and w components of the
  position, the colour and the radius vector are what they were before the call.
\<close>

theorem UpdateLights_only_y:
  "v4_x (Position (gl_lights (UpdateLights K dt this) i)) = v4_x (Position (gl_lights this i)) \<and>
   v4_z (Position (gl_lights (UpdateLights K dt this) i)) = v4_z (Position (gl_lights this i)) \<and>
   v4_w (Position (gl_lights (UpdateLights K dt this) i)) = v4_w (Position (gl_lights this i)) \<and>
   Color (gl_lights (UpdateLights K dt this) i) = Color (gl_lights this i) \<and>
   RadiusAndPadding (gl_lights (UpdateLights K dt this) i) = RadiusAndPadding (gl_lights this i)"
  by (simp add: gl_lights_UpdateLights update_light_def Let_def)

lemma fmod_small: "0 \<le> a \<Longrightarrow> a < b \<Longrightarrow> fmod a b = a"
proof -
  assume a: "0 \<le> a" and ab: "a < b"
  have "\<lfloor>a / b\<rfloor> = 0"
    using a ab by (simp add: floor_eq_iff)
  moreover have "0 \<le> a / b" using a ab by simp
  ultimately show ?thesis by (simp add: fmod_def trunc_real_def)
qed

lemma fmod_once: "0 < b \<Longrightarrow> b \<le> a \<Longrightarrow> a < 2 * b \<Longrightarrow> fmod a b = a - b"
proof -
  assume b: "0 < b" and ab: "b \<le> a" and a2: "a < 2 * b"
  have "\<lfloor>a / b\<rfloor> = 1"
    using b ab a2 by (simp add: floor_eq_iff pos_le_divide_eq pos_divide_less_eq)
  moreover have "0 \<le> a / b" using b ab by simp
  ultimately show ?thesis by (simp add: fmod_def trunc_real_def)
qed

text \<open>
  One step of the animation, for a light inside \<open>[min, min + max)\<close> and a step of at most
  \<open>max\<close>: the light falls by \<open>4.5 * dt\<close>, and when that takes it below the minimum bound
  it is moved up by \<open>LIGHT_MAX_BOUNDS[1]\<close> (not by the span).
\<close>

lemma update_light_y:
  assumes "0 < v3_y (LIGHT_MAX_BOUNDS K)"
    and "v3_y (LIGHT_MIN_BOUNDS K) \<le> v4_y (Position light)"
    and "v4_y (Position light) < v3_y (LIGHT_MIN_BOUNDS K) + v3_y (LIGHT_MAX_BOUNDS K)"
    and "0 \<le> dt" and "4.5 * dt \<le> v3_y (LIGHT_MAX_BOUNDS K)"
  shows "v4_y (Position (update_light K dt light)) =
           (if v3_y (LIGHT_MIN_BOUNDS K) + 4.5 * dt \<le> v4_y (Position light)
            then v4_y (Position light) - 4.5 * dt
            else v4_y (Position light) - 4.5 * dt + v3_y (LIGHT_MAX_BOUNDS K))"
proof (cases "v3_y (LIGHT_MIN_BOUNDS K) + 4.5 * dt \<le> v4_y (Position light)")
  case True
  then show ?thesis
    using assms
    by (simp add: update_light_def vec3_at_def Let_def fmod_once)
next
  case False
  then show ?thesis
    using assms
    by (simp add: update_light_def vec3_at_def Let_def fmod_small)
qed



subsection \<open>Rounding is monotone\<close>

lemma round_even_of_int: "round_even (of_int k) = k"
  by (simp add: round_even_def)

lemma round_even_bounds: "\<lfloor>x\<rfloor> \<le> round_even x \<and> round_even x \<le> \<lfloor>x\<rfloor> + 1"
  by (simp add: round_even_def Let_def)

lemma round_even_mono:
  assumes "x \<le> y"
  shows "round_even x \<le> round_even y"
proof (cases "\<lfloor>x\<rfloor> = \<lfloor>y\<rfloor>")
  case True
  with assms show ?thesis
    by (auto simp: round_even_def Let_def)
next
  case False
  with assms have "\<lfloor>x\<rfloor> < \<lfloor>y\<rfloor>"
    using floor_mono [OF assms] by linarith
  then show ?thesis
    using round_even_bounds [of x] round_even_bounds [of y] by linarith
qed

lemma round_even_le: "x \<le> of_int k \<Longrightarrow> round_even x \<le> k"
  using round_even_mono [of x "of_int k"] by (simp add: round_even_of_int)

lemma round_even_ge: "of_int k \<le> x \<Longrightarrow> k \<le> round_even x"
  using round_even_mono [of "of_int k" x] by (simp add: round_even_of_int)

lemma binade_props:
  assumes a: "0 \<le> a" and p: "1 \<le> p" and s: "emin \<le> int p - 1"
  shows "emin \<le> binade p emin a"
    and "a < 2 powi (binade p emin a + 1)"
    and "binade p emin a = emin \<or> 2 powi (binade p emin a) \<le> a"
proof -
  define s where "s = int p - 1 - emin"
  define n where "n = \<lfloor>a * 2 powi s\<rfloor>"
  define e' where "e' = bitlen n - 1 - s"
  have s0: "0 \<le> s" using s by (simp add: s_def)
  have b: "binade p emin a = max emin e'"
    by (simp add: binade_def e'_def n_def s_def)
  show "emin \<le> binade p emin a" by (simp add: b)
  have pos: "0 < (2::real) powi k" for k by simp
  have n0: "0 \<le> n" using a by (simp add: n_def)
  have lo: "of_int n \<le> a * 2 powi s" and hi: "a * 2 powi s < of_int n + 1"
    by (simp_all add: n_def)
  have two: "a < 2 powi (e' + 1) \<and> (n > 0 \<longrightarrow> 2 powi e' \<le> a) \<and> (n = 0 \<longrightarrow> e' < emin)"
  proof (cases "n > 0")
    case True
    then have bl: "1 \<le> bitlen n" by (auto simp: bitlen_alt_def)
    from bitlen_bounds [OF True] have
      b1: "2 ^ nat (bitlen n - 1) \<le> n" and b2: "n < 2 ^ nat (bitlen n)" by auto
    have "real_of_int (2 ^ nat (bitlen n - 1)) \<le> of_int n" using b1 by linarith
    then have "(2::real) powi (bitlen n - 1) \<le> of_int n"
      using bl by (simp add: power_int_def)
    with lo have "(2::real) powi (bitlen n - 1) \<le> a * 2 powi s" by linarith
    then have "(2::real) powi (bitlen n - 1) / 2 powi s \<le> a"
      by (simp add: pos_divide_le_eq)
    then have l: "2 powi e' \<le> a"
      by (simp add: e'_def power_int_diff)
    have "n + 1 \<le> 2 ^ nat (bitlen n)" using b2 by linarith
    then have "real_of_int (n + 1) \<le> real_of_int (2 ^ nat (bitlen n))" by linarith
    then have "of_int n + 1 \<le> (2::real) powi (bitlen n)"
      using bl by (simp add: power_int_def)
    with hi have "a * 2 powi s < (2::real) powi (bitlen n)" by linarith
    then have "a < (2::real) powi (bitlen n) / 2 powi s"
      by (simp add: pos_less_divide_eq)
    then have u: "a < 2 powi (e' + 1)"
      by (simp add: e'_def power_int_diff)
    from l u True show ?thesis by simp
  next
    case False
    with n0 have nz: "n = 0" by simp
    then have e: "e' = - 1 - s" by (simp add: e'_def)
    then have lt: "e' < emin" using p by (simp add: s_def)
    from hi nz have "a * 2 powi s < 1" by simp
    then have "a < 1 / 2 powi s" by (simp add: pos_less_divide_eq)
    then have "a < 2 powi (e' + 1)"
      by (simp add: e power_int_minus field_simps)
    with lt nz show ?thesis by simp
  qed
  show "a < 2 powi (binade p emin a + 1)"
  proof -
    have "(2::real) powi (e' + 1) \<le> 2 powi (max emin e' + 1)"
      by (rule power_int_increasing) auto
    with two show ?thesis by (simp add: b)
  qed
  show "binade p emin a = emin \<or> 2 powi (binade p emin a) \<le> a"
  proof (cases "emin \<le> e'")
    case True
    with two have "n > 0" using n0 by (cases "n = 0") auto
    with two True show ?thesis by (simp add: b max_def)
  next
    case False
    then show ?thesis by (simp add: b max_def)
  qed
qed


lemma binade_eqI:
  assumes "0 \<le> a" and "1 \<le> p" and "emin \<le> int p - 1"
    and "emin \<le> e" and "2 powi e \<le> a" and "a < 2 powi (e + 1)"
  shows "binade p emin a = e"
proof (rule ccontr)
  assume ne: "binade p emin a \<noteq> e"
  note B = binade_props [OF assms(1-3)]
  show False
  proof (cases "binade p emin a < e")
    case True
    then have "(2::real) powi (binade p emin a + 1) \<le> 2 powi e"
      by (intro power_int_increasing) auto
    with B(2) assms(5) show False by linarith
  next
    case False
    with ne have gt: "e < binade p emin a" by simp
    with assms(4) B(3) have "2 powi (binade p emin a) \<le> a" by auto
    moreover from gt have "(2::real) powi (e + 1) \<le> 2 powi (binade p emin a)"
      by (intro power_int_increasing) auto
    ultimately show False using assms(6) by linarith
  qed
qed

lemma binade_mono:
  assumes "0 \<le> a" and "a \<le> b" and "1 \<le> p" and "emin \<le> int p - 1"
  shows "binade p emin a \<le> binade p emin b"
proof (rule ccontr)
  assume "\<not> binade p emin a \<le> binade p emin b"
  then have gt: "binade p emin b < binade p emin a" by simp
  from assms have b0: "0 \<le> b" by simp
  note A = binade_props [OF assms(1) assms(3,4)]
  note B = binade_props [OF b0 assms(3,4)]
  from gt B(1) A(3) have "2 powi (binade p emin a) \<le> a" by auto
  moreover from gt have "(2::real) powi (binade p emin b + 1) \<le> 2 powi (binade p emin a)"
    by (intro power_int_increasing) auto
  ultimately show False using B(2) assms(2) by linarith
qed

lemma ieee_round_abs: "ieee_round p emin x = sgn x * round_abs p emin \<bar>x\<bar>"
  by (simp add: ieee_round_def round_abs_def Let_def)

lemma round_abs_bounds:
  assumes "0 \<le> a" and "1 \<le> p" and "emin \<le> int p - 1"
  shows "0 \<le> round_abs p emin a"
    and "round_abs p emin a \<le> 2 powi (binade p emin a + 1)"
    and "2 powi (binade p emin a) \<le> a \<Longrightarrow> 2 powi (binade p emin a) \<le> round_abs p emin a"
proof -
  define e where "e = binade p emin a"
  define ulp :: real where "ulp = 2 powi (e - (int p - 1))"
  have ulp: "0 < ulp" by (simp add: ulp_def)
  have r: "round_abs p emin a = ulp * of_int (round_even (a / ulp))"
    by (simp add: round_abs_def ulp_def e_def)
  note B = binade_props [OF assms]
  have top: "(2::real) powi (e + 1) = ulp * of_int (2 ^ p)"
  proof -
    have "(2::real) powi ((e - (int p - 1)) + int p) = 2 powi (e - (int p - 1)) * 2 powi (int p)"
      by (rule power_int_add) simp
    moreover have "(e - (int p - 1)) + int p = e + 1" by simp
    ultimately show ?thesis by (simp add: ulp_def)
  qed
  have bot: "(2::real) powi e = ulp * of_int (2 ^ (p - 1))"
  proof -
    have pa: "(2::real) powi ((e - (int p - 1)) + int (p - 1)) =
        2 powi (e - (int p - 1)) * 2 powi (int (p - 1))"
      by (rule power_int_add) simp
    have E: "(e - (int p - 1)) + int (p - 1) = e" using assms(2) by simp
    have pw: "(2::real) powi (int (p - 1)) = 2 ^ (p - 1)" by (rule power_int_of_nat)
    have "(2::real) powi e = 2 powi (e - (int p - 1)) * 2 ^ (p - 1)"
      using pa unfolding E pw .
    then show ?thesis by (simp only: ulp_def of_int_power of_int_numeral)
  qed
  have "0 \<le> a / ulp" using assms(1) ulp by simp
  then have "0 \<le> round_even (a / ulp)"
    using round_even_ge [of 0 "a / ulp"] by simp
  then show "0 \<le> round_abs p emin a"
    using ulp by (simp add: r)
  have "a / ulp \<le> of_int (2 ^ p)"
  proof -
    have "a < ulp * of_int (2 ^ p)" using B(2) top by (simp add: e_def)
    then show ?thesis using ulp by (simp add: pos_divide_le_eq mult.commute)
  qed
  then have "round_even (a / ulp) \<le> 2 ^ p" by (rule round_even_le)
  then have "real_of_int (round_even (a / ulp)) \<le> of_int (2 ^ p)" by linarith
  then have "ulp * of_int (round_even (a / ulp)) \<le> ulp * of_int (2 ^ p)"
    using ulp by (simp only: mult_le_cancel_left_pos)
  then show "round_abs p emin a \<le> 2 powi (binade p emin a + 1)"
    using top by (simp add: r e_def)
  show "2 powi (binade p emin a) \<le> round_abs p emin a" if "2 powi (binade p emin a) \<le> a"
  proof -
    have "ulp * of_int (2 ^ (p - 1)) \<le> a" using that bot by (simp add: e_def)
    then have "of_int (2 ^ (p - 1)) \<le> a / ulp"
      using ulp by (simp add: pos_le_divide_eq mult.commute)
    then have "2 ^ (p - 1) \<le> round_even (a / ulp)" by (rule round_even_ge)
    then have "real_of_int (2 ^ (p - 1)) \<le> of_int (round_even (a / ulp))" by linarith
    then have "ulp * of_int (2 ^ (p - 1)) \<le> ulp * of_int (round_even (a / ulp))"
      using ulp by (simp only: mult_le_cancel_left_pos)
    then show ?thesis using bot by (simp add: r e_def)
  qed
qed

lemma round_abs_mono:
  assumes "0 \<le> a" and "a \<le> b" and "1 \<le> p" and "emin \<le> int p - 1"
  shows "round_abs p emin a \<le> round_abs p emin b"
proof (cases "binade p emin a = binade p emin b")
  case True
  define ulp :: real where "ulp = 2 powi (binade p emin b - (int p - 1))"
  have ulp: "0 < ulp" by (simp add: ulp_def)
  have "a / ulp \<le> b / ulp" using assms(2) ulp by (simp add: divide_right_mono)
  then have "round_even (a / ulp) \<le> round_even (b / ulp)" by (rule round_even_mono)
  then have "real_of_int (round_even (a / ulp)) \<le> of_int (round_even (b / ulp))" by linarith
  then have "ulp * of_int (round_even (a / ulp)) \<le> ulp * of_int (round_even (b / ulp))"
    using ulp by (simp only: mult_le_cancel_left_pos)
  then show ?thesis by (simp add: round_abs_def True ulp_def)
next
  case False
  with binade_mono [OF assms] have lt: "binade p emin a < binade p emin b" by simp
  from assms have b0: "0 \<le> b" by simp
  note A = binade_props [OF assms(1) assms(3,4)]
  note B = binade_props [OF b0 assms(3,4)]
  from lt A(1) B(3) have "2 powi (binade p emin b) \<le> b" by auto
  then have "2 powi (binade p emin b) \<le> round_abs p emin b"
    by (rule round_abs_bounds(3) [OF b0 assms(3,4)])
  moreover from lt have "(2::real) powi (binade p emin a + 1) \<le> 2 powi (binade p emin b)"
    by (intro power_int_increasing) auto
  moreover note round_abs_bounds(2) [OF assms(1) assms(3,4)]
  ultimately show ?thesis by linarith
qed

lemma ieee_round_mono:
  assumes "x \<le> y" and "1 \<le> p" and "emin \<le> int p - 1"
  shows "ieee_round p emin x \<le> ieee_round p emin y"
proof -
  consider "0 \<le> x" | "x < 0" "0 \<le> y" | "x < 0" "y < 0" by linarith
  then show ?thesis
  proof cases
    case 1
    with assms(1) have y: "0 \<le> y" by simp
    have "0 \<le> round_abs p emin y"
      by (rule round_abs_bounds(1) [OF y assms(2,3)])
    with 1 y round_abs_mono [OF _ _ assms(2,3), of x y] assms(1) show ?thesis
      by (cases "x = 0"; cases "y = 0") (auto simp: ieee_round_abs)
  next
    case 2
    have "0 \<le> round_abs p emin \<bar>x\<bar>" "0 \<le> round_abs p emin \<bar>y\<bar>"
      by (rule round_abs_bounds(1) [OF _ assms(2,3)], simp)+
    with 2 show ?thesis
      by (cases "y = 0") (auto simp: ieee_round_abs)
  next
    case 3
    then have "\<bar>y\<bar> \<le> \<bar>x\<bar>" using assms(1) by simp
    from round_abs_mono [OF _ this assms(2,3)] 3 show ?thesis
      by (simp add: ieee_round_abs)
  qed
qed

lemma ieee_round_exact:
  assumes "1 \<le> p" and "emin \<le> int p - 1"
    and "emin \<le> e" and "2 powi e \<le> \<bar>x\<bar>" and "\<bar>x\<bar> < 2 powi (e + 1)"
    and "\<bar>x\<bar> / 2 powi (e - (int p - 1)) = of_int m"
  shows "ieee_round p emin x = x"
proof -
  have b: "binade p emin \<bar>x\<bar> = e"
    by (rule binade_eqI [OF _ assms(1-5)]) simp
  have "round_abs p emin \<bar>x\<bar> = 2 powi (e - (int p - 1)) * (\<bar>x\<bar> / 2 powi (e - (int p - 1)))"
    by (simp only: round_abs_def b assms(6) round_even_of_int)
  also have "\<dots> = \<bar>x\<bar>" by simp
  finally show ?thesis
    by (simp add: ieee_round_abs) (simp add: sgn_real_def)
qed

lemma ieee_round_0: "ieee_round p emin 0 = 0"
  by (simp add: ieee_round_def)

lemma to_float_mono: "x \<le> y \<Longrightarrow> to_float x \<le> to_float y"
  by (simp add: to_float_def ieee_round_mono)

lemma to_double_mono: "x \<le> y \<Longrightarrow> to_double x \<le> to_double y"
  by (simp add: to_double_def ieee_round_mono)

lemma to_float_exact:
  assumes "- 126 \<le> e" and "2 powi e \<le> \<bar>x\<bar>" and "\<bar>x\<bar> < 2 powi (e + 1)"
    and "\<bar>x\<bar> / 2 powi (e - 23) = of_int m"
  shows "to_float x = x"
  unfolding to_float_def
  by (rule ieee_round_exact [where e = e and m = m]) (use assms in simp_all)

lemma to_double_exact:
  assumes "- 1022 \<le> e" and "2 powi e \<le> \<bar>x\<bar>" and "\<bar>x\<bar> < 2 powi (e + 1)"
    and "\<bar>x\<bar> / 2 powi (e - 52) = of_int m"
  shows "to_double x = x"
  unfolding to_double_def
  by (rule ieee_round_exact [where e = e and m = m]) (use assms in simp_all)

lemma to_float_value:
  assumes "- 126 \<le> e" and "2 powi e \<le> \<bar>x\<bar>" and "\<bar>x\<bar> < 2 powi (e + 1)"
    and "round_even (\<bar>x\<bar> / 2 powi (e - 23)) = m"
  shows "to_float x = sgn x * (2 powi (e - 23) * of_int m)"
proof -
  have b: "binade 24 (- 126) \<bar>x\<bar> = e"
    by (rule binade_eqI) (use assms in simp_all)
  have "int 24 - 1 = 23" by simp
  then show ?thesis
    using assms(4) by (simp only: to_float_def ieee_round_def Let_def b)
qed

lemma to_float_0: "to_float 0 = 0"
  by (simp add: to_float_def ieee_round_0)

lemma to_float_1: "to_float 1 = 1"
  by (rule to_float_exact [where e = 0 and m = "2 ^ 23"]) simp_all

lemma to_float_2: "to_float 2 = 2"
  by (rule to_float_exact [where e = 1 and m = "2 ^ 23"]) simp_all

lemma to_double_1: "to_double 1 = 1"
  by (rule to_double_exact [where e = 0 and m = "2 ^ 52"]) simp_all

lemma to_double_2: "to_double 2 = 2"
  by (rule to_double_exact [where e = 1 and m = "2 ^ 52"]) simp_all

subsection \<open>The initial lights\<close>

lemma colour_channel_bounds:
  assumes "0 \<le> u" and "u < 1"
  shows "1 \<le> to_float (to_double (1 + u))" and "to_float (to_double (1 + u)) \<le> 2"
proof -
  have "to_double 1 \<le> to_double (1 + u)" and "to_double (1 + u) \<le> to_double 2"
    using assms by (auto intro: to_double_mono)
  then have "to_float 1 \<le> to_float (to_double (1 + u))"
    and "to_float (to_double (1 + u)) \<le> to_float 2"
    by (auto simp: to_double_1 to_double_2 intro: to_float_mono)
  then show "1 \<le> to_float (to_double (1 + u))" and "to_float (to_double (1 + u)) \<le> 2"
    by (simp_all add: to_float_1 to_float_2)
qed

lemma position_axis_bounds:
  assumes lo: "is_float lo" and hi: "is_float hi" and span: "is_float (hi - lo)"
    and le: "lo \<le> hi" and u: "0 \<le> u" "u < 1"
  shows "lo \<le> to_float (to_float (to_float u * to_float (hi - lo)) + lo)"
    and "to_float (to_float (to_float u * to_float (hi - lo)) + lo) \<le> hi"
proof -
  define uf where "uf = to_float u"
  define d where "d = hi - lo"
  define p where "p = to_float (uf * d)"
  have d: "to_float d = d" "0 \<le> d"
    using span le by (simp_all add: d_def is_float_def)
  have "to_float 0 \<le> uf" "uf \<le> to_float 1"
    using u by (auto simp: uf_def intro: to_float_mono)
  then have uf: "0 \<le> uf" "uf \<le> 1"
    by (simp_all add: to_float_0 to_float_1)
  have "0 \<le> uf * d" using uf d by simp
  moreover have "uf * d \<le> d"
    using uf d by (simp add: mult_left_le_one_le)
  ultimately have "to_float 0 \<le> p" "p \<le> to_float d"
    by (auto simp: p_def intro: to_float_mono)
  then have p: "0 \<le> p" "p \<le> d"
    by (simp_all add: to_float_0 d)
  have "to_float lo \<le> to_float (p + lo)" "to_float (p + lo) \<le> to_float (d + lo)"
    using p by (auto intro: to_float_mono)
  moreover have "to_float lo = lo" "to_float (d + lo) = hi"
    using lo hi by (simp_all add: d_def is_float_def)
  ultimately show "lo \<le> to_float (to_float (to_float u * to_float (hi - lo)) + lo)"
    and "to_float (to_float (to_float u * to_float (hi - lo)) + lo) \<le> hi"
    by (simp_all add: p_def uf_def d_def d [unfolded d_def])
qed

lemma RandomPosition_loop_step:
  "i < 3 \<Longrightarrow> RandomPosition_loop K dis i position gen =
     RandomPosition_loop K dis (Suc i)
       (vec3_set position i
          (to_float (to_float (to_float (fst (dis gen))
              * to_float (vec3_at (LIGHT_MAX_BOUNDS K) i - vec3_at (LIGHT_MIN_BOUNDS K) i))
            + vec3_at (LIGHT_MIN_BOUNDS K) i))) (snd (dis gen))"
  by (subst RandomPosition_loop.simps) (simp add: Let_def split: prod.splits)

lemma RandomPosition_loop_done: "RandomPosition_loop K dis 3 position gen = position"
  by (subst RandomPosition_loop.simps) simp

lemma RandomPosition_eq:
  "RandomPosition K dis gen =
     \<lparr>v3_x = to_float (to_float (to_float (fst (dis gen))
                * to_float (v3_x (LIGHT_MAX_BOUNDS K) - v3_x (LIGHT_MIN_BOUNDS K)))
              + v3_x (LIGHT_MIN_BOUNDS K)),
      v3_y = to_float (to_float (to_float (fst (dis (snd (dis gen))))
                * to_float (v3_y (LIGHT_MAX_BOUNDS K) - v3_y (LIGHT_MIN_BOUNDS K)))
              + v3_y (LIGHT_MIN_BOUNDS K)),
      v3_z = to_float (to_float (to_float (fst (dis (snd (dis (snd (dis gen))))))
                * to_float (v3_z (LIGHT_MAX_BOUNDS K) - v3_z (LIGHT_MIN_BOUNDS K)))
              + v3_z (LIGHT_MIN_BOUNDS K))\<rparr>"
proof -
  have s3: "Suc (Suc (Suc 0)) = 3" by simp
  show ?thesis
    unfolding RandomPosition_def
    by (simp add: RandomPosition_loop_step RandomPosition_loop_done [unfolded s3 [symmetric]]
        vec3_at_def vec3_set_def vec3_splat_def)
qed

lemma snd_init_light: "snd (init_light K dis order gen light) = colour_draws dis gen"
  by (simp add: init_light_def Let_def split: prod.splits)

lemma setupLightStorageBuffer_loop_at:
  "setupLightStorageBuffer_loop K dis order i gen pointLights j =
     (if i \<le> j \<and> j < MAX_NUM_LIGHTS K
      then fst (init_light K dis order ((colour_draws dis ^^ (j - i)) gen) (pointLights j))
      else pointLights j)"
proof (induction K dis order i gen pointLights rule: setupLightStorageBuffer_loop.induct)
  case (1 K dis order i gen pointLights)
  show ?case
  proof (cases "i < MAX_NUM_LIGHTS K")
    case True
    obtain light gen' where lg: "init_light K dis order gen (pointLights i) = (light, gen')"
      by (cases "init_light K dis order gen (pointLights i)")
    have gen': "gen' = colour_draws dis gen"
      using lg snd_init_light [of K dis order gen "pointLights i"] by simp
    have "setupLightStorageBuffer_loop K dis order i gen pointLights j =
          setupLightStorageBuffer_loop K dis order (Suc i) gen' (pointLights(i := light)) j"
      using True lg by (subst setupLightStorageBuffer_loop.simps) simp
    also note "1.IH" [OF True lg [symmetric] refl]
    finally have eq: "setupLightStorageBuffer_loop K dis order i gen pointLights j =
        (if Suc i \<le> j \<and> j < MAX_NUM_LIGHTS K
         then fst (init_light K dis order ((colour_draws dis ^^ (j - Suc i)) gen')
                     ((pointLights(i := light)) j))
         else (pointLights(i := light)) j)" .
    show ?thesis
    proof (cases "j = i")
      case True
      with eq lg \<open>i < MAX_NUM_LIGHTS K\<close> show ?thesis by simp
    next
      case False
      have "i < j \<Longrightarrow> (colour_draws dis ^^ (j - Suc i)) gen' = (colour_draws dis ^^ (j - i)) gen"
      proof -
        assume "i < j"
        then have "j - i = Suc (j - Suc i)" by simp
        then show ?thesis by (simp add: gen' funpow_swap1)
      qed
      with eq False show ?thesis by auto
    qed
  next
    case False
    then show ?thesis by (subst setupLightStorageBuffer_loop.simps) simp
  qed
qed

lemma init_light_in_bounds:
  assumes u: "\<forall>g. 0 \<le> fst (dis g) \<and> fst (dis g) < 1"
    and b: "\<forall>a<3. is_float (vec3_at (LIGHT_MIN_BOUNDS K) a) \<and>
                   is_float (vec3_at (LIGHT_MAX_BOUNDS K) a) \<and>
                   is_float (vec3_at (LIGHT_MAX_BOUNDS K) a - vec3_at (LIGHT_MIN_BOUNDS K) a) \<and>
                   vec3_at (LIGHT_MIN_BOUNDS K) a \<le> vec3_at (LIGHT_MAX_BOUNDS K) a"
  shows "v3_x (LIGHT_MIN_BOUNDS K) \<le> v4_x (Position (fst (init_light K dis order gen light)))"
    and "v4_x (Position (fst (init_light K dis order gen light))) \<le> v3_x (LIGHT_MAX_BOUNDS K)"
    and "v3_y (LIGHT_MIN_BOUNDS K) \<le> v4_y (Position (fst (init_light K dis order gen light)))"
    and "v4_y (Position (fst (init_light K dis order gen light))) \<le> v3_y (LIGHT_MAX_BOUNDS K)"
    and "v3_z (LIGHT_MIN_BOUNDS K) \<le> v4_z (Position (fst (init_light K dis order gen light)))"
    and "v4_z (Position (fst (init_light K dis order gen light))) \<le> v3_z (LIGHT_MAX_BOUNDS K)"
proof -
  have bx: "is_float (v3_x (LIGHT_MIN_BOUNDS K))" "is_float (v3_x (LIGHT_MAX_BOUNDS K))"
    "is_float (v3_x (LIGHT_MAX_BOUNDS K) - v3_x (LIGHT_MIN_BOUNDS K))"
    "v3_x (LIGHT_MIN_BOUNDS K) \<le> v3_x (LIGHT_MAX_BOUNDS K)"
    using b [rule_format, of 0] by (simp_all add: vec3_at_def)
  have by': "is_float (v3_y (LIGHT_MIN_BOUNDS K))" "is_float (v3_y (LIGHT_MAX_BOUNDS K))"
    "is_float (v3_y (LIGHT_MAX_BOUNDS K) - v3_y (LIGHT_MIN_BOUNDS K))"
    "v3_y (LIGHT_MIN_BOUNDS K) \<le> v3_y (LIGHT_MAX_BOUNDS K)"
    using b [rule_format, of 1] by (simp_all add: vec3_at_def)
  have bz: "is_float (v3_z (LIGHT_MIN_BOUNDS K))" "is_float (v3_z (LIGHT_MAX_BOUNDS K))"
    "is_float (v3_z (LIGHT_MAX_BOUNDS K) - v3_z (LIGHT_MIN_BOUNDS K))"
    "v3_z (LIGHT_MIN_BOUNDS K) \<le> v3_z (LIGHT_MAX_BOUNDS K)"
    using b [rule_format, of 2] by (simp_all add: vec3_at_def)
  have pos: "Position (fst (init_light K dis order gen light)) =
      vec4_of (RandomPosition K dis gen) 1"
    by (simp add: init_light_def Let_def split: prod.splits)
  have u0: "0 \<le> fst (dis g)" and u1: "fst (dis g) < 1" for g
    using u by simp_all
  show "v3_x (LIGHT_MIN_BOUNDS K) \<le> v4_x (Position (fst (init_light K dis order gen light)))"
    and "v4_x (Position (fst (init_light K dis order gen light))) \<le> v3_x (LIGHT_MAX_BOUNDS K)"
    using position_axis_bounds [OF bx u0 u1, of gen]
    by (simp_all add: pos vec4_of_def RandomPosition_eq)
  show "v3_y (LIGHT_MIN_BOUNDS K) \<le> v4_y (Position (fst (init_light K dis order gen light)))"
    and "v4_y (Position (fst (init_light K dis order gen light))) \<le> v3_y (LIGHT_MAX_BOUNDS K)"
    using position_axis_bounds [OF by' u0 u1, of "snd (dis gen)"]
    by (simp_all add: pos vec4_of_def RandomPosition_eq)
  show "v3_z (LIGHT_MIN_BOUNDS K) \<le> v4_z (Position (fst (init_light K dis order gen light)))"
    and "v4_z (Position (fst (init_light K dis order gen light))) \<le> v3_z (LIGHT_MAX_BOUNDS K)"
    using position_axis_bounds [OF bz u0 u1, of "snd (dis (snd (dis gen)))"]
    by (simp_all add: pos vec4_of_def RandomPosition_eq)
qed

lemma init_light_colour:
  assumes u: "\<forall>g. 0 \<le> fst (dis g) \<and> fst (dis g) < 1"
  shows "1 \<le> v4_x (Color (fst (init_light K dis order gen light))) \<and>
         v4_x (Color (fst (init_light K dis order gen light))) \<le> 2 \<and>
         1 \<le> v4_y (Color (fst (init_light K dis order gen light))) \<and>
         v4_y (Color (fst (init_light K dis order gen light))) \<le> 2 \<and>
         1 \<le> v4_z (Color (fst (init_light K dis order gen light))) \<and>
         v4_z (Color (fst (init_light K dis order gen light))) \<le> 2"
proof -
  obtain pr pg pb where order: "order = (pr, pg, pb)" by (cases order)
  have s: "0 \<le> sample_at dis gen k" "sample_at dis gen k < 1" for k
    using u by (simp_all add: sample_at_def)
  have c: "1 \<le> to_float (to_double (1 + sample_at dis gen k))"
    "to_float (to_double (1 + sample_at dis gen k)) \<le> 2" for k
    using colour_channel_bounds [OF s(1) [of k] s(2) [of k]] by simp_all
  show ?thesis
    by (simp add: init_light_def order Let_def c)
qed

lemma init_light_alpha: "v4_w (Color (fst (init_light K dis order gen light))) = 1"
  by (simp add: init_light_def Let_def split: prod.splits)

lemma init_light_radius:
  "v4_w (RadiusAndPadding (fst (init_light K dis order gen light))) = 30"
  by (simp add: init_light_def vec4_of_def Let_def split: prod.splits)

text \<open>
  Claim C7, as amended. When every sample of the distribution lies in \<open>[0, 1)\<close> and, on
  each axis, the two bounds and their span are finite \<open>float\<close> values with the minimum
  at most the maximum, \<open>setupLightStorageBuffer\<close> (on a light buffer that was created)
  returns, and afterwards each of the \<open>MAX_NUM_LIGHTS\<close> lights has its position within the
  bounds on every axis, its three colour channels in the closed range \<open>[1, 2]\<close>, the alpha
  channel 1 and the radius 30. This holds for every order in which the colour arguments
  are evaluated.
\<close>

theorem setupLightStorageBuffer_lights_in_bounds:
  assumes "\<forall>g. 0 \<le> fst (dis g) \<and> fst (dis g) < 1"
    and "\<forall>a<3. is_float (vec3_at (LIGHT_MIN_BOUNDS K) a) \<and>
                is_float (vec3_at (LIGHT_MAX_BOUNDS K) a) \<and>
                is_float (vec3_at (LIGHT_MAX_BOUNDS K) a - vec3_at (LIGHT_MIN_BOUNDS K) a) \<and>
                vec3_at (LIGHT_MIN_BOUNDS K) a \<le> vec3_at (LIGHT_MAX_BOUNDS K) a"
    and "m_lightBuffer this \<noteq> 0"
  shows "\<exists>s. setupLightStorageBuffer K dis e this = Inr s \<and>
           (\<forall>i<MAX_NUM_LIGHTS K.
              v3_x (LIGHT_MIN_BOUNDS K) \<le> v4_x (Position (gl_lights s i)) \<and>
              v4_x (Position (gl_lights s i)) \<le> v3_x (LIGHT_MAX_BOUNDS K) \<and>
              v3_y (LIGHT_MIN_BOUNDS K) \<le> v4_y (Position (gl_lights s i)) \<and>
              v4_y (Position (gl_lights s i)) \<le> v3_y (LIGHT_MAX_BOUNDS K) \<and>
              v3_z (LIGHT_MIN_BOUNDS K) \<le> v4_z (Position (gl_lights s i)) \<and>
              v4_z (Position (gl_lights s i)) \<le> v3_z (LIGHT_MAX_BOUNDS K) \<and>
              1 \<le> v4_x (Color (gl_lights s i)) \<and> v4_x (Color (gl_lights s i)) \<le> 2 \<and>
              1 \<le> v4_y (Color (gl_lights s i)) \<and> v4_y (Color (gl_lights s i)) \<le> 2 \<and>
              1 \<le> v4_z (Color (gl_lights s i)) \<and> v4_z (Color (gl_lights s i)) \<le> 2 \<and>
              v4_w (Color (gl_lights s i)) = 1 \<and>
              v4_w (RadiusAndPadding (gl_lights s i)) = 30)"
proof -
  let ?s = "this\<lparr>gl_lights :=
              setupLightStorageBuffer_loop K dis (arg_order e) 0 (rd e) (gl_lights this)\<rparr>"
  have ret: "setupLightStorageBuffer K dis e this = Inr ?s"
    using assms(3) by (simp add: setupLightStorageBuffer_def)
  have "\<And>i. i < MAX_NUM_LIGHTS K \<Longrightarrow>
      gl_lights ?s i =
        fst (init_light K dis (arg_order e) ((colour_draws dis ^^ i) (rd e)) (gl_lights this i))"
    by (simp add: setupLightStorageBuffer_loop_at)
  then show ?thesis
    using ret init_light_in_bounds [OF assms(1) assms(2)] init_light_colour [OF assms(1)]
    by (intro exI [of _ ?s]) (simp add: init_light_radius init_light_alpha)
qed

lemma example_constants_are_floats:
  "is_float (- 135)" "is_float 135" "is_float 270"
  "is_float (- 20)" "is_float 170" "is_float 190"
  "is_float (- 60)" "is_float 60" "is_float 120"
proof -
  have "to_float (- 135) = - 135"
    by (rule to_float_exact [where e = 7 and m = "135 * 2 ^ 16"]) simp_all
  moreover have "to_float 135 = 135"
    by (rule to_float_exact [where e = 7 and m = "135 * 2 ^ 16"]) simp_all
  moreover have "to_float 270 = 270"
    by (rule to_float_exact [where e = 8 and m = "270 * 2 ^ 15"]) simp_all
  moreover have "to_float (- 20) = - 20"
    by (rule to_float_exact [where e = 4 and m = "20 * 2 ^ 19"]) simp_all
  moreover have "to_float 170 = 170"
    by (rule to_float_exact [where e = 7 and m = "170 * 2 ^ 16"]) simp_all
  moreover have "to_float 190 = 190"
    by (rule to_float_exact [where e = 7 and m = "190 * 2 ^ 16"]) simp_all
  moreover have "to_float (- 60) = - 60"
    by (rule to_float_exact [where e = 5 and m = "60 * 2 ^ 18"]) simp_all
  moreover have "to_float 60 = 60"
    by (rule to_float_exact [where e = 5 and m = "60 * 2 ^ 18"]) simp_all
  moreover have "to_float 120 = 120"
    by (rule to_float_exact [where e = 6 and m = "120 * 2 ^ 17"]) simp_all
  ultimately show "is_float (- 135)" "is_float 135" "is_float 270"
    "is_float (- 20)" "is_float 170" "is_float 190"
    "is_float (- 60)" "is_float 60" "is_float 120"
    by (simp_all add: is_float_def)
qed

text \<open>
  The theorem at the example constants and the generator \<open>example_dis\<close>, read at the last
  of the 1024 slots.
\<close>

theorem setupLightStorageBuffer_lights_in_bounds_witness:
  "(\<forall>g. 0 \<le> fst (example_dis g) \<and> fst (example_dis g) < 1) \<and>
   is_float (v3_y (LIGHT_MIN_BOUNDS example_constants)) \<and>
   is_float (v3_y (LIGHT_MAX_BOUNDS example_constants)) \<and>
   is_float (v3_y (LIGHT_MAX_BOUNDS example_constants) - v3_y (LIGHT_MIN_BOUNDS example_constants)) \<and>
   v3_y (LIGHT_MIN_BOUNDS example_constants) \<le> v3_y (LIGHT_MAX_BOUNDS example_constants) \<and>
   m_lightBuffer (example_memory\<lparr>m_lightBuffer := 2\<rparr>) \<noteq> 0 \<and>
   (\<exists>s. setupLightStorageBuffer example_constants example_dis example_env
          (example_memory\<lparr>m_lightBuffer := 2\<rparr>) = Inr s \<and>
        - 20 \<le> v4_y (Position (gl_lights s 1023)) \<and>
        v4_y (Position (gl_lights s 1023)) \<le> 170 \<and>
        1 \<le> v4_x (Color (gl_lights s 1023)) \<and> v4_x (Color (gl_lights s 1023)) \<le> 2 \<and>
        v4_w (RadiusAndPadding (gl_lights s 1023)) = 30)"
proof -
  have h1: "\<forall>g. 0 \<le> fst (example_dis g) \<and> fst (example_dis g) < 1"
    by (simp add: example_dis_def)
  have h2: "\<forall>a<3. is_float (vec3_at (LIGHT_MIN_BOUNDS example_constants) a) \<and>
                is_float (vec3_at (LIGHT_MAX_BOUNDS example_constants) a) \<and>
                is_float (vec3_at (LIGHT_MAX_BOUNDS example_constants) a
                          - vec3_at (LIGHT_MIN_BOUNDS example_constants) a) \<and>
                vec3_at (LIGHT_MIN_BOUNDS example_constants) a
                  \<le> vec3_at (LIGHT_MAX_BOUNDS example_constants) a"
    by (simp add: example_constants_def vec3_at_def example_constants_are_floats)
  have h3: "m_lightBuffer (example_memory\<lparr>m_lightBuffer := 2\<rparr>) \<noteq> 0"
    by simp
  have m: "(1023::nat) < MAX_NUM_LIGHTS example_constants"
    by (simp add: example_constants_def)
  have b: "is_float (v3_y (LIGHT_MIN_BOUNDS example_constants))"
    "is_float (v3_y (LIGHT_MAX_BOUNDS example_constants))"
    "is_float (v3_y (LIGHT_MAX_BOUNDS example_constants) - v3_y (LIGHT_MIN_BOUNDS example_constants))"
    "v3_y (LIGHT_MIN_BOUNDS example_constants) \<le> v3_y (LIGHT_MAX_BOUNDS example_constants)"
    by (simp_all add: example_constants_def example_constants_are_floats)
  obtain s where s: "setupLightStorageBuffer example_constants example_dis example_env
          (example_memory\<lparr>m_lightBuffer := 2\<rparr>) = Inr s"
    and all: "\<forall>i<MAX_NUM_LIGHTS example_constants.
              v3_x (LIGHT_MIN_BOUNDS example_constants) \<le> v4_x (Position (gl_lights s i)) \<and>
              v4_x (Position (gl_lights s i)) \<le> v3_x (LIGHT_MAX_BOUNDS example_constants) \<and>
              v3_y (LIGHT_MIN_BOUNDS example_constants) \<le> v4_y (Position (gl_lights s i)) \<and>
              v4_y (Position (gl_lights s i)) \<le> v3_y (LIGHT_MAX_BOUNDS example_constants) \<and>
              v3_z (LIGHT_MIN_BOUNDS example_constants) \<le> v4_z (Position (gl_lights s i)) \<and>
              v4_z (Position (gl_lights s i)) \<le> v3_z (LIGHT_MAX_BOUNDS example_constants) \<and>
              1 \<le> v4_x (Color (gl_lights s i)) \<and> v4_x (Color (gl_lights s i)) \<le> 2 \<and>
              1 \<le> v4_y (Color (gl_lights s i)) \<and> v4_y (Color (gl_lights s i)) \<le> 2 \<and>
              1 \<le> v4_z (Color (gl_lights s i)) \<and> v4_z (Color (gl_lights s i)) \<le> 2 \<and>
              v4_w (Color (gl_lights s i)) = 1 \<and>
              v4_w (RadiusAndPadding (gl_lights s i)) = 30"
    using setupLightStorageBuffer_lights_in_bounds [OF h1 h2 h3, of example_env] by blast
  have "- 20 \<le> v4_y (Position (gl_lights s 1023)) \<and>
        v4_y (Position (gl_lights s 1023)) \<le> 170 \<and>
        1 \<le> v4_x (Color (gl_lights s 1023)) \<and> v4_x (Color (gl_lights s 1023)) \<le> 2 \<and>
        v4_w (RadiusAndPadding (gl_lights s 1023)) = 30"
    using all [rule_format, OF m] by (simp add: example_constants_def)
  with s h1 h3 b show ?thesis by blast
qed

lemma high_sample_rounds_to_two:
  "to_float (to_double (1 + (1 - 1 / 2 ^ 25))) = 2"
proof -
  define x :: real where "x = 2 - 1 / 2 ^ 25"
  have d: "to_double (1 + (1 - 1 / 2 ^ 25)) = 1 + (1 - 1 / 2 ^ 25)"
    by (rule to_double_exact [where e = 0 and m = "2 ^ 53 - 2 ^ 27"]) simp_all
  have x: "\<bar>x\<bar> = x" "sgn x = 1" by (simp_all add: x_def)
  have b: "binade 24 (- 126) x = 0"
    by (rule binade_eqI) (simp_all add: x_def)
  have r: "round_even (x / 2 powi (0 - (int 24 - 1))) = 2 ^ 24"
    by (simp add: round_even_def Let_def x_def)
  have "to_float x =
      sgn x * (2 powi (0 - (int 24 - 1)) * of_int (round_even (\<bar>x\<bar> / 2 powi (0 - (int 24 - 1)))))"
    by (simp only: to_float_def ieee_round_def Let_def x(1) b)
  also have "\<dots> = 2"
    by (simp only: x r) simp
  finally have f: "to_float x = 2" .
  have e: "1 + (1 - 1 / 2 ^ 25) = x" by (simp add: x_def)
  show ?thesis
    unfolding d unfolding e by (rule f)
qed

text \<open>
  The condition on the span cannot be dropped. With the bounds \<open>-1\<close> and \<open>16777218\<close>,
  both \<open>float\<close> values, the span \<open>16777219\<close> is not one: it rounds to \<open>16777220\<close>. For
  the sample \<open>1 - 2^-25\<close>, which converts to the \<open>float\<close> 1, the position computed is
  \<open>16777220\<close>, above the maximum bound.
\<close>

lemma position_passes_max_without_exact_span:
  "is_float (- 1) \<and> is_float 16777218 \<and> \<not> is_float (16777218 - (- 1)) \<and>
   to_float (to_float (to_float (1 - 1 / 2 ^ 25) * to_float (16777218 - (- 1))) + (- 1))
     = 16777220"
proof -
  have u: "to_float (1 - 1 / 2 ^ 25) = 1"
    by (subst to_float_value [where e = "- 1" and m = "2 ^ 24"])
      (simp_all add: round_even_def Let_def)
  have d: "to_float 16777219 = 16777220"
    by (subst to_float_value [where e = 24 and m = 8388610])
      (simp_all add: round_even_def Let_def)
  have p: "to_float 16777220 = 16777220"
    by (rule to_float_exact [where e = 24 and m = 8388610]) simp_all
  have lo: "to_float (- 1) = - 1"
    by (rule to_float_exact [where e = 0 and m = "2 ^ 23"]) simp_all
  have hi: "to_float 16777218 = 16777218"
    by (rule to_float_exact [where e = 24 and m = 8388609]) simp_all
  have "to_float (to_float (to_float (1 - 1 / 2 ^ 25) * to_float (16777218 - (- 1))) + (- 1))
     = to_float (to_float (1 * to_float 16777219) + (- 1))"
    by (simp only: u) simp
  also have "\<dots> = to_float (16777220 + (- 1))"
    by (simp only: d mult_1 p)
  also have "\<dots> = 16777220"
    using d by simp
  finally show ?thesis
    using lo hi d by (simp add: is_float_def)
qed

text \<open>
  Claim C7 as stated fails: with a generator whose samples are \<open>1 - 2^-25\<close>, which lies
  in \<open>[0, 1)\<close>, the \<open>double\<close> sum \<open>1.0f + sample\<close> converts to the \<open>float\<close> 2.0, so the red
  channel of the first light is exactly 2 and not below 2.
\<close>

theorem colour_channel_reaches_two:
  "(\<forall>g. 0 \<le> fst (example_dis_high g) \<and> fst (example_dis_high g) < 1) \<and>
   (\<exists>s. setupLightStorageBuffer example_constants example_dis_high example_env
          (example_memory\<lparr>m_lightBuffer := 2\<rparr>) = Inr s \<and>
        v4_x (Color (gl_lights s 0)) = 2 \<and>
        \<not> v4_x (Color (gl_lights s 0)) < 2)"
proof -
  let ?m = "example_memory\<lparr>m_lightBuffer := 2\<rparr>"
  let ?s = "?m\<lparr>gl_lights :=
      setupLightStorageBuffer_loop example_constants example_dis_high (arg_order example_env) 0
        (rd example_env) (gl_lights ?m)\<rparr>"
  have h: "\<forall>g. 0 \<le> fst (example_dis_high g) \<and> fst (example_dis_high g) < 1"
    by (simp add: example_dis_high_def)
  have ret: "setupLightStorageBuffer example_constants example_dis_high example_env ?m = Inr ?s"
    by (simp add: setupLightStorageBuffer_def)
  have smp: "sample_at example_dis_high gen k = 1 - 1 / 2 ^ 25" for gen k
    by (simp add: sample_at_def example_dis_high_def)
  have "v4_x (Color (gl_lights ?s 0)) = to_float (to_double (1 + (1 - 1 / 2 ^ 25)))"
    by (simp add: setupLightStorageBuffer_loop_at example_constants_def init_light_def smp
        Let_def split: prod.splits)
  then have "v4_x (Color (gl_lights ?s 0)) = 2"
    by (simp only: high_sample_rounds_to_two)
  with ret h show ?thesis by (intro conjI exI [of _ ?s]) simp_all
qed

text \<open>
  Claim C2, evaluated. With the vertical bounds \<open>-20\<close> and \<open>170\<close>, a light at \<open>y = -20\<close>
  and one call of \<open>UpdateLights\<close> with \<open>dt = 1\<close>, the source leaves the light at
  \<open>y = 145.5\<close>: it adds \<open>LIGHT_MAX_BOUNDS[1]\<close> and reduces modulo
  \<open>LIGHT_MAX_BOUNDS[1]\<close>. Wrapping \<open>-20 - 4.5\<close> modulo the span \<open>190\<close> gives \<open>165.5\<close>. All
  numbers involved are binary fractions, on which the source's floating-point
  operations are exact.
\<close>

theorem UpdateLights_wraps_by_max:
  "v4_y (Position (gl_lights (UpdateLights example_constants 1 example_memory) 0)) = 145.5 \<and>
   wrap_span (v3_y (LIGHT_MIN_BOUNDS example_constants)) (v3_y (LIGHT_MAX_BOUNDS example_constants))
     (v4_y (Position (gl_lights example_memory 0)) - 4.5 * 1 * 1) = 165.5"
  by (simp add: gl_lights_UpdateLights update_light_def example_constants_def example_memory_def
      example_light_def vec3_at_def wrap_span_def fmod_def trunc_real_def Let_def)

section \<open>Properties of \<open>Init\<close> and \<open>Update\<close>\<close>

lemma Init_no_loader:
  "\<not> gladLoadGLLoader e \<Longrightarrow> Init K dis e node this = Inl (Abort ''Failed to start GLAD.'')"
  by (simp add: Init_def)

lemma Init_no_light_buffer:
  "gladLoadGLLoader e \<Longrightarrow> gen_lightBuffer e = 0 \<Longrightarrow>
   Init K dis e node this =
     Inl (Abort (''Error: Forward+ light buffer has not been created.'' @ [CHR 0x0A]))"
  by (simp add: Init_def setupLightBuffers_def setupLightStorageBuffer_def Let_def)

lemma Init_returns:
  assumes "gladLoadGLLoader e" and "gen_lightBuffer e \<noteq> 0"
  shows "\<exists>s. Init K dis e node this = Inr s \<and>
           m_width s = unat (attr_width node) \<and>
           m_height s = unat (attr_height node) \<and>
           m_workGroupsX s = unat ((attr_width node + attr_width node mod 8) div 8) \<and>
           m_workGroupsY s = unat ((attr_height node + attr_height node mod 8) div 8) \<and>
           m_shaderCache s = compile_programs (child_Program node) (m_shaderCache this) \<and>
           m_depthFBO s \<noteq> None \<and> m_hdrFBO s \<noteq> None \<and> m_skybox s \<noteq> None \<and>
           gl_viewport s = (0, 0, unat (attr_width node), unat (attr_height node))"
  using assms
  by (simp add: Init_def setupLightBuffers_def setupLightStorageBuffer_def setupScreenquad_def
      setupDepthBuffer_def setupHDRBuffer_def Let_def)

text \<open>
  Claim C9. \<open>Init\<close> ends in \<open>std::abort\<close>, after writing its message, when the OpenGL
  loader fails, and also when the loader succeeds but no light buffer object was created
  (\<open>m_lightBuffer\<close> is 0). An aborted \<open>Init\<close> yields no state at all: \<open>Init\<close> returns a
  state exactly when the loader succeeded and the light buffer exists.
\<close>

theorem Init_aborts:
  "(\<not> gladLoadGLLoader e \<longrightarrow>
      Init K dis e node this = Inl (Abort ''Failed to start GLAD.'')) \<and>
   (gladLoadGLLoader e \<and> gen_lightBuffer e = 0 \<longrightarrow>
      Init K dis e node this =
        Inl (Abort (''Error: Forward+ light buffer has not been created.'' @ [CHR 0x0A]))) \<and>
   ((\<exists>s. Init K dis e node this = Inr s) \<longleftrightarrow> gladLoadGLLoader e \<and> gen_lightBuffer e \<noteq> 0)"
proof (intro conjI impI)
  assume "\<not> gladLoadGLLoader e"
  then show "Init K dis e node this = Inl (Abort ''Failed to start GLAD.'')"
    by (rule Init_no_loader)
next
  assume "gladLoadGLLoader e \<and> gen_lightBuffer e = 0"
  then show "Init K dis e node this =
      Inl (Abort (''Error: Forward+ light buffer has not been created.'' @ [CHR 0x0A]))"
    by (simp add: Init_no_light_buffer)
next
  show "(\<exists>s. Init K dis e node this = Inr s) \<longleftrightarrow> gladLoadGLLoader e \<and> gen_lightBuffer e \<noteq> 0"
  proof
    assume ex: "\<exists>s. Init K dis e node this = Inr s"
    show "gladLoadGLLoader e \<and> gen_lightBuffer e \<noteq> 0"
    proof (rule ccontr)
      assume "\<not> (gladLoadGLLoader e \<and> gen_lightBuffer e \<noteq> 0)"
      then consider "\<not> gladLoadGLLoader e" | "gladLoadGLLoader e" "gen_lightBuffer e = 0"
        by blast
      then show False
      proof cases
        case 1
        with ex Init_no_loader [of e K dis node this] show False by auto
      next
        case 2
        with ex Init_no_light_buffer [of e K dis node this] show False by auto
      qed
    qed
  next
    assume "gladLoadGLLoader e \<and> gen_lightBuffer e \<noteq> 0"
    then show "\<exists>s. Init K dis e node this = Inr s"
      using Init_returns [of e K dis node this] by blast
  qed
qed

text \<open>The three cases at the example environment.\<close>

theorem Init_aborts_witness:
  "\<not> gladLoadGLLoader (example_env\<lparr>gladLoadGLLoader := False\<rparr>) \<and>
   Init example_constants example_dis (example_env\<lparr>gladLoadGLLoader := False\<rparr>)
     (example_node 800 600) (RenderSystem_ctor example_memory)
     = Inl (Abort ''Failed to start GLAD.'') \<and>
   gladLoadGLLoader (example_env\<lparr>gen_lightBuffer := 0\<rparr>) \<and>
   gen_lightBuffer (example_env\<lparr>gen_lightBuffer := 0\<rparr>) = 0 \<and>
   Init example_constants example_dis (example_env\<lparr>gen_lightBuffer := 0\<rparr>)
     (example_node 800 600) (RenderSystem_ctor example_memory)
     = Inl (Abort (''Error: Forward+ light buffer has not been created.'' @ [CHR 0x0A])) \<and>
   gladLoadGLLoader example_env \<and> gen_lightBuffer example_env \<noteq> 0 \<and>
   (\<exists>s. Init example_constants example_dis example_env
     (example_node 800 600) (RenderSystem_ctor example_memory) = Inr s)"
  using
    Init_aborts [of "example_env\<lparr>gladLoadGLLoader := False\<rparr>" example_constants example_dis
      "example_node 800 600" "RenderSystem_ctor example_memory"]
    Init_aborts [of "example_env\<lparr>gen_lightBuffer := 0\<rparr>" example_constants example_dis
      "example_node 800 600" "RenderSystem_ctor example_memory"]
    Init_aborts [of example_env example_constants example_dis
      "example_node 800 600" "RenderSystem_ctor example_memory"]
  by (simp add: example_env_def)

lemma UpdateLights_fields:
  "m_width (UpdateLights K dt s) = m_width s"
  "m_height (UpdateLights K dt s) = m_height s"
  "m_workGroupsX (UpdateLights K dt s) = m_workGroupsX s"
  "m_workGroupsY (UpdateLights K dt s) = m_workGroupsY s"
  "m_projMatrix (UpdateLights K dt s) = m_projMatrix s"
  "m_depthFBO (UpdateLights K dt s) = m_depthFBO s"
  "m_hdrFBO (UpdateLights K dt s) = m_hdrFBO s"
  "gl_viewport (UpdateLights K dt s) = gl_viewport s"
  "gl_ubo_projection (UpdateLights K dt s) = gl_ubo_projection s"
  "gl_ubo_view (UpdateLights K dt s) = gl_ubo_view s"
  "m_shaderCache (UpdateLights K dt s) = m_shaderCache s"
  by (simp_all add: UpdateLights_def)

text \<open>
  Claim C3. When the input reports a size change (and the depth framebuffer exists),
  \<open>Update\<close> returns a state in which the projection matrix is the camera's matrix for the
  new size, the projection half of the uniform buffer holds that matrix, the viewport is
  the new rectangle, the depth framebuffer is resized to the new dimensions, and the HDR
  framebuffer is the one from before. When no size change is reported, the projection
  matrix, the projection half of the uniform buffer, the viewport and both framebuffers
  are unchanged.
\<close>

theorem Update_resize_effect:
  "(ShouldResize input \<and> m_depthFBO this = Some fbo \<longrightarrow>
      (\<exists>s. Update K input camera delta this = Inr s \<and>
         m_width s = GetWidth input \<and> m_height s = GetHeight input \<and>
         m_projMatrix s = GetProjMatrix camera (GetWidth input) (GetHeight input) \<and>
         gl_ubo_projection s = Some (GetProjMatrix camera (GetWidth input) (GetHeight input)) \<and>
         gl_viewport s = (0, 0, GetWidth input, GetHeight input) \<and>
         m_depthFBO s = Some (Resize fbo (GetWidth input) (GetHeight input)) \<and>
         fb_width (Resize fbo (GetWidth input) (GetHeight input)) = GetWidth input \<and>
         fb_height (Resize fbo (GetWidth input) (GetHeight input)) = GetHeight input \<and>
         m_hdrFBO s = m_hdrFBO this)) \<and>
   (\<not> ShouldResize input \<longrightarrow>
      (\<exists>s. Update K input camera delta this = Inr s \<and>
         m_width s = m_width this \<and> m_height s = m_height this \<and>
         m_projMatrix s = m_projMatrix this \<and>
         gl_ubo_projection s = gl_ubo_projection this \<and>
         gl_viewport s = gl_viewport this \<and>
         m_depthFBO s = m_depthFBO this \<and>
         m_hdrFBO s = m_hdrFBO this))"
  by (simp add: Update_def resize_view_def InitView_def Resize_def UpdateLights_fields Let_def)

lemma Update_tile_grid:
  "Update K input camera delta this = Inr s \<Longrightarrow>
   m_workGroupsX s = m_workGroupsX this \<and> m_workGroupsY s = m_workGroupsY this"
  by (auto simp: Update_def resize_view_def InitView_def UpdateLights_fields Let_def
      split: if_splits option.splits)

text \<open>
  Both cases at the example state: a resize from 800 x 600 to 1600 x 1200, and a call
  without a resize.
\<close>

theorem Update_resize_effect_witness:
  "ShouldResize \<lparr>ShouldResize = True, GetWidth = 1600, GetHeight = 1200\<rparr> \<and>
   m_depthFBO example_ready = Some (new_GLFramebuffer ''Depth FBO'' 800 600) \<and>
   (\<exists>s. Update example_constants \<lparr>ShouldResize = True, GetWidth = 1600, GetHeight = 1200\<rparr>
          example_camera 0 example_ready = Inr s \<and>
        m_projMatrix s = [1600, 1200] \<and>
        gl_ubo_projection s = Some [1600, 1200] \<and>
        gl_viewport s = (0, 0, 1600, 1200) \<and>
        m_depthFBO s = Some (new_GLFramebuffer ''Depth FBO'' 1600 1200) \<and>
        m_hdrFBO s = Some (new_GLFramebuffer ''HDR FBO'' 800 600)) \<and>
   \<not> ShouldResize \<lparr>ShouldResize = False, GetWidth = 1600, GetHeight = 1200\<rparr> \<and>
   (\<exists>s. Update example_constants \<lparr>ShouldResize = False, GetWidth = 1600, GetHeight = 1200\<rparr>
          example_camera 0 example_ready = Inr s \<and>
        m_projMatrix s = [] \<and>
        gl_viewport s = (0, 0, 0, 0) \<and>
        m_depthFBO s = Some (new_GLFramebuffer ''Depth FBO'' 800 600) \<and>
        m_hdrFBO s = Some (new_GLFramebuffer ''HDR FBO'' 800 600))"
proof -
  let ?inA = "\<lparr>ShouldResize = True, GetWidth = 1600, GetHeight = 1200\<rparr>"
  let ?inB = "\<lparr>ShouldResize = False, GetWidth = 1600, GetHeight = 1200\<rparr>"
  let ?fbo = "new_GLFramebuffer ''Depth FBO'' 800 600"
  have a: "ShouldResize ?inA" and b: "\<not> ShouldResize ?inB" by simp_all
  have d: "m_depthFBO example_ready = Some ?fbo"
    and h: "m_hdrFBO example_ready = Some (new_GLFramebuffer ''HDR FBO'' 800 600)"
    and p: "m_projMatrix example_ready = []"
    and v: "gl_viewport example_ready = (0, 0, 0, 0)"
    by (simp_all add: example_ready_def example_memory_def)
  have r: "Resize ?fbo 1600 1200 = new_GLFramebuffer ''Depth FBO'' 1600 1200"
    by (simp add: Resize_def new_GLFramebuffer_def)
  have c: "GetProjMatrix example_camera 1600 1200 = [1600, 1200]"
    by (simp add: example_camera_def)
  obtain s where s: "Update example_constants ?inA example_camera 0 example_ready = Inr s"
    "m_projMatrix s = GetProjMatrix example_camera (GetWidth ?inA) (GetHeight ?inA)"
    "gl_ubo_projection s = Some (GetProjMatrix example_camera (GetWidth ?inA) (GetHeight ?inA))"
    "gl_viewport s = (0, 0, GetWidth ?inA, GetHeight ?inA)"
    "m_depthFBO s = Some (Resize ?fbo (GetWidth ?inA) (GetHeight ?inA))"
    "m_hdrFBO s = m_hdrFBO example_ready"
    using Update_resize_effect [of ?inA example_ready ?fbo example_constants example_camera 0] a d
    by blast
  obtain s' where s': "Update example_constants ?inB example_camera 0 example_ready = Inr s'"
    "m_projMatrix s' = m_projMatrix example_ready"
    "gl_viewport s' = gl_viewport example_ready"
    "m_depthFBO s' = m_depthFBO example_ready"
    "m_hdrFBO s' = m_hdrFBO example_ready"
    using Update_resize_effect [of ?inB example_ready ?fbo example_constants example_camera 0] b
    by blast
  have "m_projMatrix s = [1600, 1200]" "gl_ubo_projection s = Some [1600, 1200]"
    "gl_viewport s = (0, 0, 1600, 1200)"
    "m_depthFBO s = Some (new_GLFramebuffer ''Depth FBO'' 1600 1200)"
    "m_hdrFBO s = Some (new_GLFramebuffer ''HDR FBO'' 800 600)"
    using s r c h by simp_all
  moreover have "m_projMatrix s' = []" "gl_viewport s' = (0, 0, 0, 0)"
    "m_depthFBO s' = Some ?fbo" "m_hdrFBO s' = Some (new_GLFramebuffer ''HDR FBO'' 800 600)"
    using s' d h p v by simp_all
  ultimately show ?thesis
    using a b d s(1) s'(1) by blast
qed

text \<open>
  The tile count of \<open>Init\<close> against the ceiling: \<open>(n + n % 8) / 8\<close> rounds up only when
  the remainder is at least 4, so it is one less than \<open>ceil(n / 8)\<close> exactly when the
  remainder is 1, 2 or 3. On \<open>unsigned int\<close> the sum does not wrap for dimensions below
  \<open>2^32 - 7\<close>.
\<close>

lemma ceil_div8_eq: "ceil_div8 n = n div 8 + (if n mod 8 = 0 then 0 else 1)"
proof -
  define q where "q = n div 8"
  define r where "r = n mod 8"
  have n: "n = q * 8 + r" and r: "r < 8" by (simp_all add: q_def r_def)
  have "real n / 8 = real r / 8 + of_int (int q)"
    unfolding n by simp
  then have "\<lceil>real n / 8\<rceil> = \<lceil>real r / 8\<rceil> + int q"
    by (simp only: ceiling_add_of_int)
  moreover have "\<lceil>real r / 8\<rceil> = (if r = 0 then 0 else 1)"
    using r by (auto simp: ceiling_eq_iff)
  ultimately have "\<lceil>real n / 8\<rceil> = int (q + (if r = 0 then 0 else 1))"
    by simp
  then show ?thesis
    by (simp only: ceil_div8_def nat_int q_def r_def)
qed

lemma tile_count_nat:
  fixes n :: nat
  shows "(n + n mod 8) div 8 = n div 8 + (if 4 \<le> n mod 8 then 1 else 0)"
proof -
  define q where "q = n div 8"
  define r where "r = n mod 8"
  have n: "n = q * 8 + r" and r: "r < 8" by (simp_all add: q_def r_def)
  have "(n + r) div 8 = q + (r + r) div 8"
    unfolding n by (simp add: add.assoc)
  moreover have "(r + r) div 8 = (if 4 \<le> r then 1 else 0)"
    using r by (simp add: div_eq_0_iff less_eq_div_iff_mult_less_eq) linarith?
  ultimately show ?thesis by (simp add: q_def r_def)
qed

lemma tile_count_vs_ceil:
  "(n + n mod 8) div 8 = (if n mod 8 \<in> {1, 2, 3} then ceil_div8 n - 1 else ceil_div8 n)"
proof -
  have "n mod 8 \<in> {1, 2, 3} \<longleftrightarrow> n mod 8 \<noteq> 0 \<and> \<not> 4 \<le> n mod 8"
    by auto
  then show ?thesis
    by (simp add: tile_count_nat ceil_div8_eq)
qed

lemma tile_count_word:
  fixes w :: "32 word"
  assumes "unat w + 7 < 2 ^ 32"
  shows "unat ((w + w mod 8) div 8) = (unat w + unat w mod 8) div 8"
proof -
  have "unat w mod 8 < 8" by simp
  with assms have "unat w + unat w mod 8 < 2 ^ 32" by linarith
  then have "unat (w + w mod 8) = unat w + unat w mod 8"
    by (simp add: unat_word_ariths)
  then show ?thesis
    by (simp add: unat_word_ariths)
qed

lemma Init_tile_grid:
  assumes "gladLoadGLLoader e" and "gen_lightBuffer e \<noteq> 0"
    and "unat (attr_width node) + 7 < 2 ^ 32" and "unat (attr_height node) + 7 < 2 ^ 32"
  shows "\<exists>s. Init K dis e node this = Inr s \<and>
           m_workGroupsX s =
             (if m_width s mod 8 \<in> {1, 2, 3} then ceil_div8 (m_width s) - 1
              else ceil_div8 (m_width s)) \<and>
           m_workGroupsY s =
             (if m_height s mod 8 \<in> {1, 2, 3} then ceil_div8 (m_height s) - 1
              else ceil_div8 (m_height s))"
proof -
  from Init_returns [OF assms(1,2), of K dis node this] obtain s where
    s: "Init K dis e node this = Inr s"
       "m_width s = unat (attr_width node)" "m_height s = unat (attr_height node)"
       "m_workGroupsX s = unat ((attr_width node + attr_width node mod 8) div 8)"
       "m_workGroupsY s = unat ((attr_height node + attr_height node mod 8) div 8)"
    by blast
  have "m_workGroupsX s = (m_width s + m_width s mod 8) div 8"
    and "m_workGroupsY s = (m_height s + m_height s mod 8) div 8"
    using s assms(3,4) by (simp_all add: tile_count_word)
  then show ?thesis
    using s(1) by (simp only: tile_count_vs_ceil) blast
qed

lemma Update_on_resize:
  "ShouldResize input \<Longrightarrow> m_depthFBO this = Some fbo \<Longrightarrow>
   \<exists>s. Update K input camera delta this = Inr s \<and>
       m_width s = GetWidth input \<and> m_height s = GetHeight input"
  by (simp add: Update_def resize_view_def InitView_def UpdateLights_fields Let_def)

text \<open>
  Claim C1, evaluated. \<open>Init\<close> computes the tile counts as \<open>(dim + dim % 8) / 8\<close>. For
  1680 x 1050 this gives 210 x 131 tiles, while \<open>ceil(1050 / 8)\<close> is 132. \<open>Update\<close> never
  assigns the tile counts: after \<open>Init\<close> with 800 x 600 and a resize to 1600 x 1200 they
  are still 100 x 75, while \<open>ceil(1600 / 8)\<close> is 200 and \<open>ceil(1200 / 8)\<close> is 150.
\<close>

theorem tile_grid_not_ceil:
  "(\<exists>s. Init example_constants example_dis example_env (example_node 1680 1050)
          (RenderSystem_ctor example_memory) = Inr s \<and>
        m_width s = 1680 \<and> m_height s = 1050 \<and>
        m_workGroupsX s = 210 \<and> m_workGroupsY s = 131) \<and>
   ceil_div8 1680 = 210 \<and> ceil_div8 1050 = 132 \<and>
   (\<exists>s s'. Init example_constants example_dis example_env (example_node 800 600)
          (RenderSystem_ctor example_memory) = Inr s \<and>
        m_workGroupsX s = 100 \<and> m_workGroupsY s = 75 \<and>
        Update example_constants \<lparr>ShouldResize = True, GetWidth = 1600, GetHeight = 1200\<rparr>
          example_camera 0 s = Inr s' \<and>
        m_width s' = 1600 \<and> m_height s' = 1200 \<and>
        m_workGroupsX s' = 100 \<and> m_workGroupsY s' = 75) \<and>
   ceil_div8 1600 = 200 \<and> ceil_div8 1200 = 150"
proof -
  have env: "gladLoadGLLoader example_env" "gen_lightBuffer example_env \<noteq> 0"
    by (simp_all add: example_env_def)
  obtain s1 where s1: "Init example_constants example_dis example_env (example_node 1680 1050)
          (RenderSystem_ctor example_memory) = Inr s1"
    "m_width s1 = 1680" "m_height s1 = 1050" "m_workGroupsX s1 = 210" "m_workGroupsY s1 = 131"
    using Init_returns [OF env, of example_constants example_dis "example_node 1680 1050"
        "RenderSystem_ctor example_memory"]
    by (auto simp: example_node_def)
  obtain s2 where s2: "Init example_constants example_dis example_env (example_node 800 600)
          (RenderSystem_ctor example_memory) = Inr s2"
    "m_workGroupsX s2 = 100" "m_workGroupsY s2 = 75" "m_depthFBO s2 \<noteq> None"
    using Init_returns [OF env, of example_constants example_dis "example_node 800 600"
        "RenderSystem_ctor example_memory"]
    by (auto simp: example_node_def)
  from s2(4) obtain fbo where fbo: "m_depthFBO s2 = Some fbo" by auto
  obtain s3 where s3: "Update example_constants
        \<lparr>ShouldResize = True, GetWidth = 1600, GetHeight = 1200\<rparr> example_camera 0 s2 = Inr s3"
    "m_width s3 = 1600" "m_height s3 = 1200"
    using Update_on_resize [of "\<lparr>ShouldResize = True, GetWidth = 1600, GetHeight = 1200\<rparr>"
        s2 fbo example_constants example_camera 0] fbo
    by auto
  have grid: "m_workGroupsX s3 = 100" "m_workGroupsY s3 = 75"
    using Update_tile_grid [OF s3(1)] s2 by simp_all
  have c: "ceil_div8 1680 = 210" "ceil_div8 1050 = 132" "ceil_div8 1600 = 200" "ceil_div8 1200 = 150"
    by (simp_all add: ceil_div8_def)
  show ?thesis
    using s1 s2 s3 grid c by blast
qed

section \<open>Properties of the shader cache\<close>

lemma map_of_try_emplace:
  "map_of (try_emplace cache key v) k =
     (case map_of cache k of Some p \<Rightarrow> Some p | None \<Rightarrow> if k = key then Some v else None)"
  by (auto simp: try_emplace_def map_add_def split: option.splits)

lemma map_of_compile_programs:
  "map_of (compile_programs nodes cache) n =
     (case map_of cache n of
        Some p \<Rightarrow> Some p
      | None \<Rightarrow>
          map_of (map (\<lambda>node. (attr_name node,
                    \<lparr>program_name = attr_name node,
                     program_shaders = collect_shaders (child_Shader node)\<rparr>)) nodes) n)"
proof (induction nodes arbitrary: cache)
  case Nil
  then show ?case by (simp split: option.splits)
next
  case (Cons node nodes)
  show ?case
    by (simp add: Cons.IH Compile_def map_of_try_emplace split: option.splits)
qed

text \<open>
  Claim C5, as amended. Entering a program under a name keeps what the cache already
  holds: a lookup afterwards gives the entry that was there before if there was one, and
  the new program only if the name was absent. Entering a second program under the same
  name therefore changes nothing, and after the loop of \<open>Init\<close> each name maps to the
  program of the first \<open>Program\<close> node with that name (unless the cache already had one).
\<close>

theorem Compile_keeps_first:
  "map_of (Compile cache name shaders) n =
     (case map_of cache n of
        Some p \<Rightarrow> Some p
      | None \<Rightarrow> if n = name then Some \<lparr>program_name = name, program_shaders = shaders\<rparr> else None) \<and>
   Compile (Compile cache name shaders) name shaders' = Compile cache name shaders \<and>
   map_of (compile_programs nodes cache) n =
     (case map_of cache n of
        Some p \<Rightarrow> Some p
      | None \<Rightarrow>
          map_of (map (\<lambda>node. (attr_name node,
                    \<lparr>program_name = attr_name node,
                     program_shaders = collect_shaders (child_Shader node)\<rparr>)) nodes) n)"
proof (intro conjI)
  show "map_of (Compile cache name shaders) n =
     (case map_of cache n of
        Some p \<Rightarrow> Some p
      | None \<Rightarrow> if n = name then Some \<lparr>program_name = name, program_shaders = shaders\<rparr> else None)"
    by (simp add: Compile_def map_of_try_emplace)
  show "Compile (Compile cache name shaders) name shaders' = Compile cache name shaders"
    by (simp add: Compile_def try_emplace_def split: option.splits)
  show "map_of (compile_programs nodes cache) n =
     (case map_of cache n of
        Some p \<Rightarrow> Some p
      | None \<Rightarrow>
          map_of (map (\<lambda>node. (attr_name node,
                    \<lparr>program_name = attr_name node,
                     program_shaders = collect_shaders (child_Shader node)\<rparr>)) nodes) n)"
    by (rule map_of_compile_programs)
qed

text \<open>
  Claim C5 as stated fails: with two \<open>Program\<close> nodes named \<open>PBRShader\<close>, the cache maps
  the name to the program of the first node, not to the most recently compiled one.
\<close>

theorem recompile_keeps_first_program:
  "cache_at (compile_programs [example_program ''PBRShader'' ''old.glsl'',
                               example_program ''PBRShader'' ''new.glsl''] []) ''PBRShader''
     = Inr \<lparr>program_name = ''PBRShader'',
            program_shaders = [\<lparr>shader_path = ''old.glsl'', shader_type = ''stage''\<rparr>]\<rparr> \<and>
   cache_at (compile_programs [example_program ''PBRShader'' ''old.glsl'',
                               example_program ''PBRShader'' ''new.glsl''] []) ''PBRShader''
     \<noteq> Inr \<lparr>program_name = ''PBRShader'',
            program_shaders = [\<lparr>shader_path = ''new.glsl'', shader_type = ''stage''\<rparr>]\<rparr>"
  by (simp add: cache_at_def Compile_def try_emplace_def example_program_def collect_shaders_def)

text \<open>
  Claim C6, as amended. \<open>Shutdown\<close> calls \<open>DeleteProgram\<close> on exactly the cached programs
  and leaves the object unchanged, so a lookup after \<open>Shutdown\<close> gives what it gave
  before: for a registered name it succeeds and returns the program that has just been
  deleted, and it fails with \<open>out_of_range\<close> only for a name that was never registered.
\<close>

theorem Shutdown_keeps_cache:
  "set (fst (Shutdown this)) = (\<lambda>shader. DeleteProgram (fst shader)) ` set (m_shaderCache this) \<and>
   snd (Shutdown this) = this \<and>
   cache_at (m_shaderCache (snd (Shutdown this))) name = cache_at (m_shaderCache this) name \<and>
   (map_of (m_shaderCache this) name = Some p \<longrightarrow>
      cache_at (m_shaderCache (snd (Shutdown this))) name = Inr p \<and>
      DeleteProgram name \<in> set (fst (Shutdown this))) \<and>
   (map_of (m_shaderCache this) name = None \<longrightarrow>
      cache_at (m_shaderCache (snd (Shutdown this))) name = Inl out_of_range)"
proof -
  have "map_of (m_shaderCache this) name = Some p \<Longrightarrow>
        DeleteProgram name \<in> (\<lambda>shader. DeleteProgram (fst shader)) ` set (m_shaderCache this)"
    by (drule map_of_SomeD) force
  then show ?thesis
    by (simp add: Shutdown_def cache_at_def)
qed

text \<open>A registered and an unregistered name at the example state.\<close>

theorem Shutdown_keeps_cache_witness:
  "map_of (m_shaderCache example_ready) ''PBRShader'' =
     Some \<lparr>program_name = ''PBRShader'',
           program_shaders = [\<lparr>shader_path = ''pbr.glsl'', shader_type = ''stage''\<rparr>]\<rparr> \<and>
   cache_at (m_shaderCache (snd (Shutdown example_ready))) ''PBRShader'' =
     Inr \<lparr>program_name = ''PBRShader'',
          program_shaders = [\<lparr>shader_path = ''pbr.glsl'', shader_type = ''stage''\<rparr>]\<rparr> \<and>
   DeleteProgram ''PBRShader'' \<in> set (fst (Shutdown example_ready)) \<and>
   map_of (m_shaderCache example_ready) ''ForwardShader'' = None \<and>
   cache_at (m_shaderCache (snd (Shutdown example_ready))) ''ForwardShader'' = Inl out_of_range"
proof -
  have c: "m_shaderCache example_ready =
      [(''DepthPassShader'', \<lparr>program_name = ''DepthPassShader'',
           program_shaders = [\<lparr>shader_path = ''depth.glsl'', shader_type = ''stage''\<rparr>]\<rparr>),
       (''LightCullShader'', \<lparr>program_name = ''LightCullShader'',
           program_shaders = [\<lparr>shader_path = ''cull.glsl'', shader_type = ''stage''\<rparr>]\<rparr>),
       (''PBRShader'', \<lparr>program_name = ''PBRShader'',
           program_shaders = [\<lparr>shader_path = ''pbr.glsl'', shader_type = ''stage''\<rparr>]\<rparr>),
       (''PostProcessShader'', \<lparr>program_name = ''PostProcessShader'',
           program_shaders = [\<lparr>shader_path = ''post.glsl'', shader_type = ''stage''\<rparr>]\<rparr>)]"
    by (simp add: example_ready_def example_node_def example_program_def Compile_def
        try_emplace_def collect_shaders_def)
  have a: "map_of (m_shaderCache example_ready) ''PBRShader'' =
     Some \<lparr>program_name = ''PBRShader'',
           program_shaders = [\<lparr>shader_path = ''pbr.glsl'', shader_type = ''stage''\<rparr>]\<rparr>"
    by (simp add: c)
  have b: "map_of (m_shaderCache example_ready) ''ForwardShader'' = None"
    by (simp add: c)
  show ?thesis
    using a b
      Shutdown_keeps_cache [of example_ready "''PBRShader''"
        "\<lparr>program_name = ''PBRShader'',
           program_shaders = [\<lparr>shader_path = ''pbr.glsl'', shader_type = ''stage''\<rparr>]\<rparr>"]
      Shutdown_keeps_cache [of example_ready "''ForwardShader''"
        "\<lparr>program_name = ''PBRShader'',
           program_shaders = [\<lparr>shader_path = ''pbr.glsl'', shader_type = ''stage''\<rparr>]\<rparr>"]
    by blast
qed

text \<open>
  Claim C6 as stated fails: after \<open>Shutdown\<close> the lookup of \<open>PBRShader\<close> does not fail; it
  returns the program on which \<open>DeleteProgram\<close> was called.
\<close>

theorem lookup_after_Shutdown_succeeds:
  "cache_at (m_shaderCache (snd (Shutdown example_ready))) ''PBRShader'' \<noteq> Inl out_of_range \<and>
   cache_at (m_shaderCache (snd (Shutdown example_ready))) ''PBRShader'' =
     Inr \<lparr>program_name = ''PBRShader'',
          program_shaders = [\<lparr>shader_path = ''pbr.glsl'', shader_type = ''stage''\<rparr>]\<rparr> \<and>
   DeleteProgram ''PBRShader'' \<in> set (fst (Shutdown example_ready))"
  by (simp add: Shutdown_def cache_at_def example_ready_def example_node_def example_program_def
      Compile_def try_emplace_def collect_shaders_def)

section \<open>Properties of \<open>Render\<close>\<close>

lemma submissions_append:
  "submissions cur (xs @ ys) = submissions cur xs @ submissions (bound_after cur xs) ys"
  by (induction cur xs rule: submissions.induct) simp_all

lemma bound_after_append:
  "bound_after cur (xs @ ys) = bound_after (bound_after cur xs) ys"
  by (induction cur xs rule: bound_after.induct) simp_all

lemma uniforms_set_append:
  "uniforms_set shader (xs @ ys) = uniforms_set shader xs @ uniforms_set shader ys"
  by (induction shader xs rule: uniforms_set.induct) simp_all

lemma renderMeshes_submissions:
  "submissions cur (renderMeshes shader model depthPass meshes) =
     map (Draw cur) (map GetIndexCount meshes)"
  by (cases depthPass; induction meshes) simp_all

lemma renderMeshes_bound: "bound_after cur (renderMeshes shader model depthPass meshes) = cur"
  by (cases depthPass; induction meshes) simp_all

lemma renderMeshes_uniforms:
  "uniforms_set shader (renderMeshes shader model depthPass meshes) =
     (if depthPass then [] else concat (replicate (length meshes) material_uniforms))"
  by (cases depthPass; induction meshes) (simp_all add: material_uniforms_def)

lemma renderMeshes_uniforms_other:
  "p \<noteq> shader \<Longrightarrow> uniforms_set p (renderMeshes shader model depthPass meshes) = []"
  by (cases depthPass; induction meshes) simp_all

lemma renderModels_submissions:
  "submissions cur (renderModels shader renderList depthPass) =
     map (Draw cur) (index_counts renderList)"
  by (induction renderList)
    (simp_all add: index_counts_def renderModel_def submissions_append renderMeshes_submissions
      renderMeshes_bound)

lemma renderModels_bound: "bound_after cur (renderModels shader renderList depthPass) = cur"
  by (induction renderList) (simp_all add: renderModel_def bound_after_append renderMeshes_bound)

lemma renderModels_uniforms:
  "uniforms_set shader (renderModels shader renderList depthPass) =
     concat (map (\<lambda>model. ''modelMatrix'' #
        (if depthPass then [] else concat (replicate (length (GetMeshes model)) material_uniforms)))
        renderList)"
  by (induction renderList)
    (simp_all add: renderModel_def uniforms_set_append renderMeshes_uniforms)

lemma renderModels_uniforms_other:
  "p \<noteq> shader \<Longrightarrow> uniforms_set p (renderModels shader renderList depthPass) = []"
  by (induction renderList)
    (simp_all add: renderModel_def uniforms_set_append renderMeshes_uniforms_other)

lemma pass_events_append:
  "pass_events shader cur (xs @ ys) =
     pass_events shader cur xs @ pass_events shader (bound_after cur xs) ys"
  by (induction shader cur xs rule: pass_events.induct) simp_all

lemma renderMeshes_events:
  "pass_events shader (Some shader) (renderMeshes shader model depthPass meshes) =
     concat (map (\<lambda>mesh. (if depthPass then [] else map Uniform material_uniforms)
                            @ [Drawn (GetIndexCount mesh)]) meshes)"
  by (cases depthPass; induction meshes) (simp_all add: material_uniforms_def)

lemma renderMeshes_events_other:
  "p \<noteq> shader \<Longrightarrow> cur \<noteq> Some p \<Longrightarrow>
   pass_events p cur (renderMeshes shader model depthPass meshes) = []"
  by (cases depthPass; induction meshes) simp_all

lemma renderModels_events:
  "pass_events shader (Some shader) (renderModels shader renderList depthPass) =
     concat (map (\<lambda>model. Uniform ''modelMatrix'' #
        concat (map (\<lambda>mesh. (if depthPass then [] else map Uniform material_uniforms)
                               @ [Drawn (GetIndexCount mesh)]) (GetMeshes model)))
        renderList)"
  by (induction renderList)
    (simp_all add: renderModel_def pass_events_append renderMeshes_events renderMeshes_bound)

lemma renderModels_events_other:
  "p \<noteq> shader \<Longrightarrow> cur \<noteq> Some p \<Longrightarrow>
   pass_events p cur (renderModels shader renderList depthPass) = []"
  by (induction renderList)
    (simp_all add: renderModel_def pass_events_append renderMeshes_events_other
      renderMeshes_bound)

lemma static_ref_ready:
  "bound \<or> map_of cache key \<noteq> None \<Longrightarrow> static_ref cache key bound = Inr key"
  by (auto simp: static_ref_def cache_at_def split: option.splits)

lemma Render_ready:
  assumes "render_ready this st"
  shows "\<exists>depthFBO hdrFBO skybox.
           m_depthFBO this = Some depthFBO \<and> m_hdrFBO this = Some hdrFBO \<and>
           m_skybox this = Some skybox \<and>
           Render this st scene =
             (None, frame this scene depthFBO hdrFBO skybox,
              \<lparr>static_depthShader = True, static_lightCullShader = True,
               static_pbrShader = True, static_postProcessShader = True\<rparr>)"
proof -
  from assms obtain depthFBO hdrFBO skybox where
    p: "m_depthFBO this = Some depthFBO" "m_hdrFBO this = Some hdrFBO"
       "m_skybox this = Some skybox"
    by (auto simp: render_ready_def)
  have r: "static_ref (m_shaderCache this) ''DepthPassShader'' (static_depthShader st)
             = Inr ''DepthPassShader''"
    "static_ref (m_shaderCache this) ''LightCullShader'' (static_lightCullShader st)
             = Inr ''LightCullShader''"
    "static_ref (m_shaderCache this) ''PBRShader'' (static_pbrShader st) = Inr ''PBRShader''"
    "static_ref (m_shaderCache this) ''PostProcessShader'' (static_postProcessShader st)
             = Inr ''PostProcessShader''"
    using assms by (simp_all add: render_ready_def static_ref_ready)
  have "Render this st scene =
             (None, frame this scene depthFBO hdrFBO skybox,
              \<lparr>static_depthShader = True, static_lightCullShader = True,
               static_pbrShader = True, static_postProcessShader = True\<rparr>)"
    by (simp add: Render_def r render_passes_def p frame_def Let_def)
  with p show ?thesis by blast
qed

lemma frame_submissions:
  "submissions cur (frame this scene depthFBO hdrFBO skybox) =
     map (Draw (Some ''DepthPassShader'')) (index_counts (m_renderList scene))
     @ [Dispatch (Some ''LightCullShader'') (m_workGroupsX this) (m_workGroupsY this) 1]
     @ map (Draw (Some ''PBRShader'')) (index_counts (m_renderList scene))
     @ [DrawSkybox, DrawQuad (Some ''PostProcessShader'') 0 4]"
  by (simp add: frame_def depth_pass_def culling_pass_def shading_pass_def post_process_pass_def
      renderQuad_def submissions_append bound_after_append renderModels_submissions
      renderModels_bound)

lemma frame_uniforms_depth:
  "uniforms_set ''DepthPassShader'' (frame this scene depthFBO hdrFBO skybox) =
     replicate (length (m_renderList scene)) ''modelMatrix''"
proof -
  have "concat (map (\<lambda>model. [''modelMatrix'']) renderList) =
        replicate (length renderList) ''modelMatrix''" for renderList :: "Model list"
    by (induction renderList) simp_all
  then show ?thesis
    by (simp add: frame_def depth_pass_def culling_pass_def shading_pass_def
        post_process_pass_def renderQuad_def uniforms_set_append renderModels_uniforms
        renderModels_uniforms_other)
qed

lemma frame_uniforms_pbr:
  "uniforms_set ''PBRShader'' (frame this scene depthFBO hdrFBO skybox) =
     [''irradianceMap'', ''wireframe'', ''viewPos'', ''sunDirection'', ''sunColor'']
     @ concat (map (\<lambda>model. ''modelMatrix'' #
                 concat (replicate (length (GetMeshes model)) material_uniforms))
         (m_renderList scene))"
  by (simp add: frame_def depth_pass_def culling_pass_def shading_pass_def
      post_process_pass_def renderQuad_def uniforms_set_append renderModels_uniforms
      renderModels_uniforms_other)


lemma frame_events_depth:
  "pass_events ''DepthPassShader'' cur (frame this scene depthFBO hdrFBO skybox) =
     concat (map (\<lambda>model. Uniform ''modelMatrix'' #
                 map (\<lambda>mesh. Drawn (GetIndexCount mesh)) (GetMeshes model))
         (m_renderList scene))"
proof -
  have "concat (map (\<lambda>mesh. [Drawn (GetIndexCount mesh)]) meshes) =
        map (\<lambda>mesh. Drawn (GetIndexCount mesh)) meshes" for meshes :: "Mesh list"
    by (induction meshes) simp_all
  then show ?thesis
    by (simp add: frame_def depth_pass_def culling_pass_def shading_pass_def
        post_process_pass_def renderQuad_def pass_events_append bound_after_append
        renderModels_events renderModels_events_other renderModels_bound)
qed

lemma frame_events_pbr:
  "pass_events ''PBRShader'' cur (frame this scene depthFBO hdrFBO skybox) =
     map Uniform [''irradianceMap'', ''wireframe'', ''viewPos'', ''sunDirection'', ''sunColor'']
     @ concat (map (\<lambda>model. Uniform ''modelMatrix'' #
                 concat (map (\<lambda>mesh. map Uniform material_uniforms
                                        @ [Drawn (GetIndexCount mesh)]) (GetMeshes model)))
         (m_renderList scene))"
  by (simp add: frame_def depth_pass_def culling_pass_def shading_pass_def
      post_process_pass_def renderQuad_def pass_events_append bound_after_append
      renderModels_events renderModels_events_other renderModels_bound)

text \<open>
  When one of the four programs is neither bound to its static nor in the cache, the
  lookup throws: \<open>Render\<close> ends after its first call, before any pass has begun.
\<close>

lemma Render_lookup_fails:
  assumes "\<not> ((static_depthShader st \<or> map_of (m_shaderCache this) ''DepthPassShader'' \<noteq> None) \<and>
     (static_lightCullShader st \<or> map_of (m_shaderCache this) ''LightCullShader'' \<noteq> None) \<and>
     (static_pbrShader st \<or> map_of (m_shaderCache this) ''PBRShader'' \<noteq> None) \<and>
     (static_postProcessShader st \<or> map_of (m_shaderCache this) ''PostProcessShader'' \<noteq> None))"
  shows "\<exists>st'. Render this st scene =
           (Some out_of_range, [glBindBuffer GL_UNIFORM_BUFFER (m_uboMatrices this)], st')"
  using assms
  by (auto simp: Render_def static_ref_def cache_at_def Let_def split: option.splits)

text \<open>
  Claim C4, as amended. In a \<open>Render\<close> call on a renderer whose framebuffers and skybox
  exist and whose four programs are bound or cached, the call returns normally, and what
  it submits is, in this order: one depth-pass draw per mesh of the render list, then the
  single compute dispatch over the tile grid, then one shading-pass draw per mesh, then the
  skybox and the post-process quad. This holds whatever program was bound before the call.
\<close>

theorem Render_pass_order:
  assumes "render_ready this st"
  shows "\<exists>t st'. Render this st scene = (None, t, st') \<and>
           submissions cur t =
             map (Draw (Some ''DepthPassShader'')) (index_counts (m_renderList scene))
             @ [Dispatch (Some ''LightCullShader'') (m_workGroupsX this) (m_workGroupsY this) 1]
             @ map (Draw (Some ''PBRShader'')) (index_counts (m_renderList scene))
             @ [DrawSkybox, DrawQuad (Some ''PostProcessShader'') 0 4]"
  using Render_ready [OF assms, of scene] frame_submissions by metis

lemma example_ready_cache:
  "m_shaderCache example_ready =
      [(''DepthPassShader'', \<lparr>program_name = ''DepthPassShader'',
           program_shaders = [\<lparr>shader_path = ''depth.glsl'', shader_type = ''stage''\<rparr>]\<rparr>),
       (''LightCullShader'', \<lparr>program_name = ''LightCullShader'',
           program_shaders = [\<lparr>shader_path = ''cull.glsl'', shader_type = ''stage''\<rparr>]\<rparr>),
       (''PBRShader'', \<lparr>program_name = ''PBRShader'',
           program_shaders = [\<lparr>shader_path = ''pbr.glsl'', shader_type = ''stage''\<rparr>]\<rparr>),
       (''PostProcessShader'', \<lparr>program_name = ''PostProcessShader'',
           program_shaders = [\<lparr>shader_path = ''post.glsl'', shader_type = ''stage''\<rparr>]\<rparr>)]"
  by (simp add: example_ready_def example_node_def example_program_def Compile_def
      try_emplace_def collect_shaders_def)

lemma example_ready_render_ready: "render_ready example_ready example_statics"
  by (simp add: render_ready_def example_ready_cache) (simp add: example_ready_def)

text \<open>The theorem at the example state, with a render list of two models and three meshes.\<close>

theorem Render_pass_order_witness:
  "render_ready example_ready example_statics \<and>
   (\<exists>t st'. Render example_ready example_statics
       (example_scene [example_model [example_mesh 1 36, example_mesh 2 6],
                       example_model [example_mesh 3 12]]) = (None, t, st') \<and>
      submissions None t =
        [Draw (Some ''DepthPassShader'') 36, Draw (Some ''DepthPassShader'') 6,
         Draw (Some ''DepthPassShader'') 12,
         Dispatch (Some ''LightCullShader'') 100 75 1,
         Draw (Some ''PBRShader'') 36, Draw (Some ''PBRShader'') 6, Draw (Some ''PBRShader'') 12,
         DrawSkybox, DrawQuad (Some ''PostProcessShader'') 0 4])"
proof -
  let ?scene = "example_scene [example_model [example_mesh 1 36, example_mesh 2 6],
                       example_model [example_mesh 3 12]]"
  have c: "index_counts (m_renderList ?scene) = [36, 6, 12]"
    by (simp add: index_counts_def example_scene_def example_model_def example_mesh_def)
  have g: "m_workGroupsX example_ready = 100" "m_workGroupsY example_ready = 75"
    by (simp_all add: example_ready_def)
  show ?thesis
    using Render_pass_order [OF example_ready_render_ready, of ?scene None]
      example_ready_render_ready
    by (simp add: c g)
qed

text \<open>
  Claim C8, as amended. In a \<open>Render\<close> call that runs through, what happens to the depth
  program is, for each entry of the render list in turn: \<open>modelMatrix\<close> is set, then each
  mesh of the entry is drawn, and no other uniform is set. What happens to the shading
  program is: the five per-frame uniforms are set, then for each entry \<open>modelMatrix\<close> is
  set and, for each of its meshes, the four material uniforms are set and then the mesh
  is drawn. So an entry with at least one mesh has all four material uniforms set before
  each of its draws, and an entry without meshes has none of them set. This holds
  whatever program was bound before the call.
\<close>

theorem Render_uniforms_per_pass:
  assumes "render_ready this st"
  shows "\<exists>t st'. Render this st scene = (None, t, st') \<and>
           pass_events ''DepthPassShader'' cur t =
             concat (map (\<lambda>model. Uniform ''modelMatrix'' #
                         map (\<lambda>mesh. Drawn (GetIndexCount mesh)) (GetMeshes model))
                 (m_renderList scene)) \<and>
           pass_events ''PBRShader'' cur t =
             map Uniform
               [''irradianceMap'', ''wireframe'', ''viewPos'', ''sunDirection'', ''sunColor'']
             @ concat (map (\<lambda>model. Uniform ''modelMatrix'' #
                         concat (map (\<lambda>mesh. map Uniform material_uniforms
                                                @ [Drawn (GetIndexCount mesh)])
                                   (GetMeshes model)))
                 (m_renderList scene)) \<and>
           uniforms_set ''DepthPassShader'' t =
             replicate (length (m_renderList scene)) ''modelMatrix'' \<and>
           uniforms_set ''PBRShader'' t =
             [''irradianceMap'', ''wireframe'', ''viewPos'', ''sunDirection'', ''sunColor'']
             @ concat (map (\<lambda>model. ''modelMatrix'' #
                         concat (replicate (length (GetMeshes model)) material_uniforms))
                 (m_renderList scene)) \<and>
           (\<forall>model. uniforms_set ''DepthPassShader'' (renderModel ''DepthPassShader'' True model)
                      = [''modelMatrix'']) \<and>
           (\<forall>model. GetMeshes model \<noteq> [] \<longrightarrow>
                      set material_uniforms
                        \<subseteq> set (uniforms_set ''PBRShader'' (renderModel ''PBRShader'' False model))) \<and>
           (\<forall>model. GetMeshes model = [] \<longrightarrow>
                      uniforms_set ''PBRShader'' (renderModel ''PBRShader'' False model)
                        = [''modelMatrix''])"
proof -
  have a: "uniforms_set ''DepthPassShader'' (renderModel ''DepthPassShader'' True model)
             = [''modelMatrix'']" for model
    by (simp add: renderModel_def renderMeshes_uniforms)
  have b: "set material_uniforms
             \<subseteq> set (uniforms_set ''PBRShader'' (renderModel ''PBRShader'' False model))"
    if "GetMeshes model \<noteq> []" for model
  proof -
    from that obtain n where "length (GetMeshes model) = Suc n"
      by (cases "GetMeshes model") auto
    then show ?thesis
      by (auto simp: renderModel_def renderMeshes_uniforms)
  qed
  have c: "uniforms_set ''PBRShader'' (renderModel ''PBRShader'' False model) = [''modelMatrix'']"
    if "GetMeshes model = []" for model
    using that by (simp add: renderModel_def)
  from Render_ready [OF assms, of scene] obtain depthFBO hdrFBO skybox st' where
    r: "Render this st scene = (None, frame this scene depthFBO hdrFBO skybox, st')"
    by blast
  show ?thesis
    using r a b c
      frame_uniforms_depth [of this scene depthFBO hdrFBO skybox]
      frame_uniforms_pbr [of this scene depthFBO hdrFBO skybox]
      frame_events_depth [of cur this scene depthFBO hdrFBO skybox]
      frame_events_pbr [of cur this scene depthFBO hdrFBO skybox]
    by (intro exI [of _ "frame this scene depthFBO hdrFBO skybox"] exI [of _ st']) simp
qed

text \<open>The theorem at the example state, with a render list of two models and three meshes.\<close>

theorem Render_uniforms_per_pass_witness:
  "render_ready example_ready example_statics \<and>
   (\<exists>t st'. Render example_ready example_statics
       (example_scene [example_model [example_mesh 1 36, example_mesh 2 6],
                       example_model [example_mesh 3 12]]) = (None, t, st') \<and>
      pass_events ''DepthPassShader'' None t =
        [Uniform ''modelMatrix'', Drawn 36, Drawn 6, Uniform ''modelMatrix'', Drawn 12] \<and>
      pass_events ''PBRShader'' None t =
        [Uniform ''irradianceMap'', Uniform ''wireframe'', Uniform ''viewPos'',
         Uniform ''sunDirection'', Uniform ''sunColor'',
         Uniform ''modelMatrix'',
         Uniform ''albedo'', Uniform ''metallic'', Uniform ''ao'', Uniform ''roughness'', Drawn 36,
         Uniform ''albedo'', Uniform ''metallic'', Uniform ''ao'', Uniform ''roughness'', Drawn 6,
         Uniform ''modelMatrix'',
         Uniform ''albedo'', Uniform ''metallic'', Uniform ''ao'', Uniform ''roughness'', Drawn 12])"
proof -
  let ?scene = "example_scene [example_model [example_mesh 1 36, example_mesh 2 6],
                       example_model [example_mesh 3 12]]"
  obtain t st' where t: "Render example_ready example_statics ?scene = (None, t, st')"
    "pass_events ''DepthPassShader'' None t =
             concat (map (\<lambda>model. Uniform ''modelMatrix'' #
                         map (\<lambda>mesh. Drawn (GetIndexCount mesh)) (GetMeshes model))
                 (m_renderList ?scene))"
    "pass_events ''PBRShader'' None t =
             map Uniform
               [''irradianceMap'', ''wireframe'', ''viewPos'', ''sunDirection'', ''sunColor'']
             @ concat (map (\<lambda>model. Uniform ''modelMatrix'' #
                         concat (map (\<lambda>mesh. map Uniform material_uniforms
                                                @ [Drawn (GetIndexCount mesh)])
                                   (GetMeshes model)))
                 (m_renderList ?scene))"
    using Render_uniforms_per_pass [OF example_ready_render_ready, of ?scene None] by blast
  have "pass_events ''DepthPassShader'' None t =
        [Uniform ''modelMatrix'', Drawn 36, Drawn 6, Uniform ''modelMatrix'', Drawn 12]"
    using t(2) by (simp add: example_scene_def example_model_def example_mesh_def)
  moreover have "pass_events ''PBRShader'' None t =
        [Uniform ''irradianceMap'', Uniform ''wireframe'', Uniform ''viewPos'',
         Uniform ''sunDirection'', Uniform ''sunColor'',
         Uniform ''modelMatrix'',
         Uniform ''albedo'', Uniform ''metallic'', Uniform ''ao'', Uniform ''roughness'', Drawn 36,
         Uniform ''albedo'', Uniform ''metallic'', Uniform ''ao'', Uniform ''roughness'', Drawn 6,
         Uniform ''modelMatrix'',
         Uniform ''albedo'', Uniform ''metallic'', Uniform ''ao'', Uniform ''roughness'', Drawn 12]"
    using t(3)
    by (simp add: example_scene_def example_model_def example_mesh_def material_uniforms_def)
  ultimately show ?thesis
    using t(1) example_ready_render_ready by blast
qed

text \<open>
  Claim C8 as stated fails: for a render list whose only entry has no meshes (a model
  whose file failed to load), the shading pass sets \<open>modelMatrix\<close> for the entry and none
  of the four material uniforms.
\<close>

theorem shading_pass_skips_meshless_entry:
  "m_renderList (example_scene [example_model []]) = [example_model []] \<and>
   fst (Render example_ready example_statics (example_scene [example_model []])) = None \<and>
   uniforms_set ''PBRShader''
     (fst (snd (Render example_ready example_statics (example_scene [example_model []])))) =
     [''irradianceMap'', ''wireframe'', ''viewPos'', ''sunDirection'', ''sunColor'',
      ''modelMatrix'']"
proof -
  let ?scene = "example_scene [example_model []]"
  from Render_ready [OF example_ready_render_ready, of ?scene]
  obtain depthFBO hdrFBO skybox st' where
    r: "Render example_ready example_statics ?scene =
          (None, frame example_ready ?scene depthFBO hdrFBO skybox, st')"
    by blast
  have "uniforms_set ''PBRShader'' (frame example_ready ?scene depthFBO hdrFBO skybox) =
     [''irradianceMap'', ''wireframe'', ''viewPos'', ''sunDirection'', ''sunColor'',
      ''modelMatrix'']"
    by (simp add: frame_uniforms_pbr example_scene_def example_model_def)
  then show ?thesis
    using r by (simp add: example_scene_def)
qed


text \<open>
  Claim C4 as stated fails: when the configuration registered no \<open>PBRShader\<close>, \<open>Render\<close>
  throws \<open>out_of_range\<close> at the third lookup. Its only call was \<open>glBindBuffer\<close>; none of
  the four passes is executed.
\<close>

theorem Render_throws_without_program:
  "Render (example_ready\<lparr>m_shaderCache :=
              compile_programs [example_program ''DepthPassShader'' ''depth.glsl'',
                                example_program ''LightCullShader'' ''cull.glsl'',
                                example_program ''PostProcessShader'' ''post.glsl''] []\<rparr>)
      example_statics
      (example_scene [example_model [example_mesh 1 36]])
   = (Some out_of_range, [glBindBuffer GL_UNIFORM_BUFFER 0],
      \<lparr>static_depthShader = True, static_lightCullShader = True,
       static_pbrShader = False, static_postProcessShader = False\<rparr>) \<and>
   submissions None [glBindBuffer GL_UNIFORM_BUFFER 0] = []"
  by (simp add: Render_def static_ref_def cache_at_def example_statics_def example_ready_def
      example_memory_def example_program_def Compile_def try_emplace_def collect_shaders_def
      Let_def)

end
